theory Spec2Isabelle
  imports Complex_Main "HOL-Library.Sublist"
begin

section \<open>Background command execution and status streaming of commandforge\<close>

text \<open>
  The development embeds the background executor (package executor: the
  \<^verbatim>\<open>BackgroundCommand\<close> object, its status snapshot, the process-wide registry), the
  synchronous \<^verbatim>\<open>Command.Execute\<close>, the execution pipeline of package flow and the
  WebSocket polling loop \<^verbatim>\<open>streamCommandHandler\<close> of the API server.

  Conventions of the embedding:
  \<^item> a Go struct is a record, a pointer to a \<^verbatim>\<open>BackgroundCommand\<close> is an address into an
    explicit heap, a Go map is a partial function;
  \<^item> \<^verbatim>\<open>(T, error)\<close> results are sums with the error on the left;
  \<^item> the operating system is an input: whether the pipes and the spawn succeed, what the
    process prints, what \<^verbatim>\<open>cmd.Wait()\<close> returns and what the clock reads are parameters;
  \<^item> goroutines are interleaved as atomic events on the command object (every access to
    the shared line buffers is under the command's mutex in the source);
  \<^item> \<^verbatim>\<open>time.Time\<close> is an integer count of nanoseconds relative to the Unix epoch,
    \<^verbatim>\<open>time.Duration\<close> an integer count of nanoseconds, and a \<^verbatim>\<open>float64\<close> number of
    seconds is a real number (rounding is not modelled);
  \<^item> \<^verbatim>\<open>int\<close> and \<^verbatim>\<open>int64\<close> are the integers: the functions below only subtract clock
    readings and compare lengths, which stays far from the bounds of 64 bits;
  \<^item> fields of different structs that share a name carry a prefix: \<open>st_\<close> for
    \<^verbatim>\<open>BackgroundCommandStatus\<close>, \<open>msg_\<close> for \<^verbatim>\<open>CommandStatusResponse\<close>, \<open>res_\<close> for
    \<^verbatim>\<open>ExecutionResult\<close>, \<open>cr_\<close> for \<^verbatim>\<open>CommandResult\<close>; the struct \<^verbatim>\<open>Command\<close> of
    package executor is the record \<open>Command'\<close>.
\<close>

subsection \<open>Time, strings and formatting\<close>

type_synonym time = int
type_synonym duration = int

text \<open>The zero value of \<^verbatim>\<open>time.Time\<close> is January 1 of year 1, 00:00 UTC.\<close>

definition zero_time :: time where
  "zero_time = - 62135596800000000000"

definition IsZero :: "time \<Rightarrow> bool" where
  "IsZero t = (t = zero_time)"

definition Second :: duration where
  "Second = 1000000000"

text \<open>\<^verbatim>\<open>Duration.Seconds()\<close>.\<close>

definition Seconds :: "duration \<Rightarrow> real" where
  "Seconds d = real_of_int d / 1000000000"

text \<open>\<^verbatim>\<open>strings.Join(elems, sep)\<close>.\<close>

fun Join :: "string list \<Rightarrow> string \<Rightarrow> string" where
  "Join [] sep = []"
| "Join [x] sep = x"
| "Join (x # y # ys) sep = x @ sep @ Join (y # ys) sep"

definition newline :: string where
  "newline = [CHR 0x0A]"

text \<open>The verb \<^verbatim>\<open>%d\<close> of \<^verbatim>\<open>fmt.Sprintf\<close> on an integer.\<close>

definition digit_char :: "nat \<Rightarrow> char" where
  "digit_char d = ''0123456789'' ! d"

fun show_nat :: "nat \<Rightarrow> string" where
  "show_nat n = (if n < 10 then [digit_char n] else show_nat (n div 10) @ [digit_char (n mod 10)])"

declare show_nat.simps [simp del]

definition show_int :: "int \<Rightarrow> string" where
  "show_int i = (if i < 0 then CHR ''-'' # show_nat (nat (- i)) else show_nat (nat i))"

text \<open>\<^verbatim>\<open>fmt.Sprintf("cmd-%d", time.Now().UnixNano())\<close>, the clock reading given.\<close>

definition cmd_id :: "time \<Rightarrow> string" where
  "cmd_id now = ''cmd-'' @ show_int now"

subsection \<open>Errors\<close>

text \<open>
  The errors of the background executor, the registry and the pipeline, one constructor
  for each \<^verbatim>\<open>fmt.Errorf\<close> of the source; the argument is the text or the error that the
  format string wraps.
\<close>

datatype error =
    StdoutPipeFailed string
  | StderrPipeFailed string
  | StartCommandFailed string
  | CommandNotFound string
  | CommandIDNotFound string
  | StartBackgroundFailed error
  | CreateBackgroundFailed error
  | FlowNotFound string
  | NotPlanningFlow string

fun error_text :: "error \<Rightarrow> string" where
  "error_text (StdoutPipeFailed e) = ''failed to create stdout pipe: '' @ e"
| "error_text (StderrPipeFailed e) = ''failed to create stderr pipe: '' @ e"
| "error_text (StartCommandFailed e) = ''failed to start command: '' @ e"
| "error_text (CommandNotFound i) = ''command not found: '' @ i"
| "error_text (CommandIDNotFound i) = ''command with ID '' @ i @ '' not found''"
| "error_text (StartBackgroundFailed e) = ''failed to start background command: '' @ error_text e"
| "error_text (CreateBackgroundFailed e) = ''failed to create background command: '' @ error_text e"
| "error_text (FlowNotFound i) = ''flow with ID '' @ i @ '' not found''"
| "error_text (NotPlanningFlow i) = ''flow with ID '' @ i @ '' is not a planning flow''"

subsection \<open>The background command object\<close>

text \<open>
  \<^verbatim>\<open>Done\<close> is the channel of the source: \<open>True\<close> once it has been closed. The fields
  \<^verbatim>\<open>Cmd\<close>, \<^verbatim>\<open>Cancel\<close> and \<^verbatim>\<open>mu\<close> (the OS handle, the cancel function and the mutex) have no
  counterpart: the operating system is an input of the model.
\<close>

record BackgroundCommand =
  ID :: string
  Command :: string
  WorkingDir :: string
  StartTime :: time
  EndTime :: time
  Duration :: duration
  ExitCode :: int
  Output :: string
  Error :: string
  OutputLines :: "string list"
  ErrorLines :: "string list"
  Done :: bool

text \<open>
  What \<^verbatim>\<open>cmd.Wait()\<close> returns: \<^verbatim>\<open>nil\<close>, an \<^verbatim>\<open>*exec.ExitError\<close> with its
  \<^verbatim>\<open>ExitCode()\<close>, or an error of another type.
\<close>

datatype wait_result = WaitNil | WaitExitError int | WaitOtherError string

text \<open>
  Whether the three fallible steps of spawning succeed: \<^verbatim>\<open>StdoutPipe()\<close>,
  \<^verbatim>\<open>StderrPipe()\<close> and \<^verbatim>\<open>Start()\<close> (\<open>None\<close> is a \<^verbatim>\<open>nil\<close> error), and the two clock
  readings taken while a command is created.
\<close>

record spawn_env =
  now_id :: time
  now_start :: time
  stdout_pipe_err :: "string option"
  stderr_pipe_err :: "string option"
  start_err :: "string option"

definition NewBackgroundCommand :: "string \<Rightarrow> string \<Rightarrow> time \<Rightarrow> error + BackgroundCommand" where
  "NewBackgroundCommand command workingDir now =
     Inr \<lparr> ID = cmd_id now, Command = command, WorkingDir = workingDir,
           StartTime = zero_time, EndTime = zero_time, Duration = 0, ExitCode = 0,
           Output = [], Error = [], OutputLines = [], ErrorLines = [], Done = False \<rparr>"

definition AppendOutput :: "string \<Rightarrow> BackgroundCommand \<Rightarrow> BackgroundCommand" where
  "AppendOutput line c = c\<lparr> OutputLines := OutputLines c @ [line] \<rparr>"

definition AppendError :: "string \<Rightarrow> BackgroundCommand \<Rightarrow> BackgroundCommand" where
  "AppendError line c = c\<lparr> ErrorLines := ErrorLines c @ [line] \<rparr>"

text \<open>
  The goroutine that waits for the process, from the return of \<^verbatim>\<open>cmd.Wait()\<close> to
  \<^verbatim>\<open>close(c.Done)\<close>, taken as one step; the same statements stand in \<^verbatim>\<open>Start\<close>
  and in \<^verbatim>\<open>ExecuteCommandWithStreaming\<close>.
\<close>

definition wait_exit_code :: "wait_result \<Rightarrow> int" where
  "wait_exit_code r = (case r of WaitNil \<Rightarrow> 0 | WaitExitError n \<Rightarrow> n | WaitOtherError e \<Rightarrow> 1)"

definition waiter :: "wait_result \<Rightarrow> time \<Rightarrow> BackgroundCommand \<Rightarrow> BackgroundCommand" where
  "waiter r now c =
     c\<lparr> EndTime := now, Duration := now - StartTime c, ExitCode := wait_exit_code r,
        Output := Join (OutputLines c) newline, Error := Join (ErrorLines c) newline,
        Done := True \<rparr>"

text \<open>\<^verbatim>\<open>BackgroundCommand.GetStatus\<close>: the first component is \<open>True\<close> when \<^verbatim>\<open>Done\<close> is closed.\<close>

definition GetStatus ::
  "BackgroundCommand \<Rightarrow> bool \<times> int \<times> string \<times> string \<times> string list \<times> string list" where
  "GetStatus c =
     (let outputCopy = OutputLines c; errorCopy = ErrorLines c in
      if Done c then (True, ExitCode c, Output c, Error c, outputCopy, errorCopy)
      else (False, 0, Join outputCopy newline, Join errorCopy newline, outputCopy, errorCopy))"

text \<open>
  The events of a command's life after the spawn: a reader goroutine appends a line of
  stdout or of stderr, or the waiting goroutine finishes the command. The waiting goroutine
  runs once, so no schedule has a second \<open>ProcExit\<close>: \<open>bg_event\<close> is \<open>None\<close> there.
\<close>

datatype event = StdoutLine string | StderrLine string | ProcExit wait_result time

fun bg_event :: "event \<Rightarrow> BackgroundCommand \<Rightarrow> BackgroundCommand option" where
  "bg_event (StdoutLine l) c = Some (AppendOutput l c)"
| "bg_event (StderrLine l) c = Some (AppendError l c)"
| "bg_event (ProcExit r now) c = (if Done c then None else Some (waiter r now c))"

fun bg_run :: "event list \<Rightarrow> BackgroundCommand \<Rightarrow> BackgroundCommand option" where
  "bg_run [] c = Some c"
| "bg_run (e # es) c = (case bg_event e c of None \<Rightarrow> None | Some c' \<Rightarrow> bg_run es c')"

subsection \<open>The heap and the process-wide registry\<close>

text \<open>
  \<^verbatim>\<open>commandRegistry.commands\<close> maps an id to a pointer. Objects live in \<open>heap\<close>;
  \<open>next_addr\<close> is the next free address. An object that a function builds and drops
  before any pointer to it escapes is not entered into the heap.
\<close>

type_synonym addr = nat

record world =
  heap :: "addr \<Rightarrow> BackgroundCommand"
  next_addr :: addr
  commands :: "string \<rightharpoonup> addr"

definition alloc :: "BackgroundCommand \<Rightarrow> world \<Rightarrow> addr \<times> world" where
  "alloc c w = (next_addr w, w\<lparr> heap := (heap w)(next_addr w := c), next_addr := Suc (next_addr w) \<rparr>)"

definition RegisterCommand :: "addr \<Rightarrow> world \<Rightarrow> world" where
  "RegisterCommand a w = w\<lparr> commands := (commands w)(ID (heap w a) \<mapsto> a) \<rparr>"

definition GetCommand :: "string \<Rightarrow> world \<Rightarrow> error + addr" where
  "GetCommand i w = (case commands w i of None \<Rightarrow> Inl (CommandNotFound i) | Some a \<Rightarrow> Inr a)"

definition RemoveCommand :: "string \<Rightarrow> world \<Rightarrow> world" where
  "RemoveCommand i w = w\<lparr> commands := (commands w)(i := None) \<rparr>"

text \<open>An event of the process of the command at address \<open>a\<close>.\<close>

definition world_event :: "addr \<Rightarrow> event \<Rightarrow> world \<Rightarrow> world option" where
  "world_event a e w =
     (case bg_event e (heap w a) of None \<Rightarrow> None | Some c \<Rightarrow> Some (w\<lparr> heap := (heap w)(a := c) \<rparr>))"

fun world_run :: "addr \<Rightarrow> event list \<Rightarrow> world \<Rightarrow> world option" where
  "world_run a [] w = Some w"
| "world_run a (e # es) w = (case world_event a e w of None \<Rightarrow> None | Some w' \<Rightarrow> world_run a es w')"

subsection \<open>Spawning a background command\<close>

text \<open>
  \<^verbatim>\<open>ExecuteCommandWithStreaming\<close>: the two pipes, the object, the spawn, and only then the
  registration. Every failure returns \<^verbatim>\<open>nil\<close> and the error. The goroutines it starts
  are the events of \<open>world_run\<close> at the returned address; its waiting goroutine waits for
  both readers first, so in its schedules \<open>ProcExit\<close> comes last.
\<close>

definition ExecuteCommandWithStreaming ::
  "spawn_env \<Rightarrow> string \<Rightarrow> string \<Rightarrow> world \<Rightarrow> (error + addr) \<times> world" where
  "ExecuteCommandWithStreaming env command workingDir w =
     (let id' = cmd_id (now_id env) in
      case stdout_pipe_err env of
        Some e \<Rightarrow> (Inl (StdoutPipeFailed e), w)
      | None \<Rightarrow>
         (case stderr_pipe_err env of
            Some e \<Rightarrow> (Inl (StderrPipeFailed e), w)
          | None \<Rightarrow>
             (let bgCmd = \<lparr> ID = id', Command = command, WorkingDir = workingDir,
                            StartTime = now_start env, EndTime = zero_time, Duration = 0,
                            ExitCode = 0, Output = [], Error = [],
                            OutputLines = [], ErrorLines = [], Done = False \<rparr> in
              case start_err env of
                Some e \<Rightarrow> (Inl (StartCommandFailed e), w)
              | None \<Rightarrow> (let (a, w1) = alloc bgCmd w in (Inr a, RegisterCommand a w1)))))"

text \<open>
  \<^verbatim>\<open>BackgroundCommand.Start\<close> works on the receiver in place: the result is the error
  (\<open>None\<close> for \<^verbatim>\<open>nil\<close>) and the receiver as the call leaves it. Its waiting goroutine
  does not wait for the readers.
\<close>

definition Start :: "spawn_env \<Rightarrow> BackgroundCommand \<Rightarrow> error option \<times> BackgroundCommand" where
  "Start env c =
     (case stdout_pipe_err env of
        Some e \<Rightarrow> (Some (StdoutPipeFailed e), c)
      | None \<Rightarrow>
         (case stderr_pipe_err env of
            Some e \<Rightarrow> (Some (StderrPipeFailed e), c)
          | None \<Rightarrow>
             (let c1 = c\<lparr> StartTime := now_start env \<rparr> in
              case start_err env of
                Some e \<Rightarrow> (Some (StartCommandFailed e), c1)
              | None \<Rightarrow> (None, c1))))"

subsection \<open>The execution pipeline\<close>

record BackgroundCommandStatus =
  st_ID :: string
  st_Command :: string
  st_WorkingDir :: string
  st_Running :: bool
  st_ExitCode :: int
  st_Output :: string
  st_Error :: string
  st_OutputList :: "string list"
  st_ErrorList :: "string list"
  st_Duration :: real

definition NewBackgroundCommandStatus ::
  "string \<Rightarrow> string \<Rightarrow> string \<Rightarrow> bool \<Rightarrow> int \<Rightarrow> string \<Rightarrow> string \<Rightarrow> string list \<Rightarrow> string list \<Rightarrow> real
     \<Rightarrow> BackgroundCommandStatus" where
  "NewBackgroundCommandStatus id' command workingDir running exitCode output error' outputList errorList duration' =
     \<lparr> st_ID = id', st_Command = command, st_WorkingDir = workingDir, st_Running = running,
       st_ExitCode = exitCode, st_Output = output, st_Error = error',
       st_OutputList = outputList, st_ErrorList = errorList, st_Duration = duration' \<rparr>"

record ExecutionResult =
  res_Success :: bool
  res_ExitCode :: int
  res_Output :: string
  res_Error :: string
  res_Duration :: real
  res_OutputList :: "string list"
  res_ErrorList :: "string list"

record StreamingExecutor =
  ActiveCommands :: "string \<rightharpoonup> addr"

text \<open>The listeners of the pipeline are callbacks of its callers and are left out.\<close>

record ExecutionPipeline =
  Executor :: StreamingExecutor
  PipelineWorkingDir :: string
  BackgroundCommands :: "string \<rightharpoonup> addr"

definition NewStreamingExecutor :: StreamingExecutor where
  "NewStreamingExecutor = \<lparr> ActiveCommands = Map.empty \<rparr>"

definition NewExecutionPipeline :: "string \<Rightarrow> ExecutionPipeline" where
  "NewExecutionPipeline workingDir =
     \<lparr> Executor = NewStreamingExecutor, PipelineWorkingDir = workingDir,
       BackgroundCommands = Map.empty \<rparr>"

definition result_of :: "BackgroundCommand \<Rightarrow> ExecutionResult" where
  "result_of cmd =
     \<lparr> res_Success = (ExitCode cmd = 0), res_ExitCode = ExitCode cmd, res_Output = Output cmd,
       res_Error = Error cmd, res_Duration = Seconds (Duration cmd),
       res_OutputList = OutputLines cmd, res_ErrorList = ErrorLines cmd \<rparr>"

text \<open>
  The two critical sections of \<^verbatim>\<open>StreamingExecutor.ExecuteCommand\<close>: the entry is stored
  once the command has started, and deleted once \<^verbatim>\<open>Done\<close> has been received.
\<close>

definition store_active :: "string \<Rightarrow> addr \<Rightarrow> StreamingExecutor \<Rightarrow> StreamingExecutor" where
  "store_active commandID cmd e = e\<lparr> ActiveCommands := (ActiveCommands e)(commandID \<mapsto> cmd) \<rparr>"

definition delete_active :: "string \<Rightarrow> StreamingExecutor \<Rightarrow> StreamingExecutor" where
  "delete_active commandID e = e\<lparr> ActiveCommands := (ActiveCommands e)(commandID := None) \<rparr>"

text \<open>
  \<^verbatim>\<open>StreamingExecutor.ExecuteCommand\<close> blocks until \<^verbatim>\<open>Done\<close> is closed, also after the
  context was cancelled (it then kills the process and waits all the same). \<open>evs\<close> is the
  life of the process as the goroutines see it; the call returns once the events have
  closed \<^verbatim>\<open>Done\<close>, and \<open>None\<close> says that it is still blocked. \<open>now\<close> is the clock
  reading of its own identifier. The second component of the result is the returned error,
  \<open>None\<close> for \<^verbatim>\<open>nil\<close>.
\<close>

definition StreamingExecutor_ExecuteCommand ::
  "time \<Rightarrow> spawn_env \<Rightarrow> event list \<Rightarrow> string \<Rightarrow> string \<Rightarrow> StreamingExecutor \<Rightarrow> world
     \<Rightarrow> ((ExecutionResult \<times> error option) \<times> StreamingExecutor \<times> world) option" where
  "StreamingExecutor_ExecuteCommand now env evs command workingDir e w =
     (let commandID = cmd_id now in
      case ExecuteCommandWithStreaming env command workingDir w of
        (Inl err, w1) \<Rightarrow>
          Some ((\<lparr> res_Success = False, res_ExitCode = - 1, res_Output = [],
                    res_Error = ''Failed to execute command: '' @ error_text err,
                    res_Duration = 0, res_OutputList = [], res_ErrorList = [] \<rparr>, None), e, w1)
      | (Inr cmd, w1) \<Rightarrow>
          (let e1 = store_active commandID cmd e in
           case world_run cmd evs w1 of
             None \<Rightarrow> None
           | Some w2 \<Rightarrow>
               if Done (heap w2 cmd) then
                 (let e2 = delete_active commandID e1 in
                  Some ((result_of (heap w2 cmd), None), e2, w2))
               else None))"

definition StreamingExecutor_GetCommandStatus ::
  "string \<Rightarrow> StreamingExecutor \<Rightarrow> world \<Rightarrow> error + ExecutionResult" where
  "StreamingExecutor_GetCommandStatus commandID e w =
     (case ActiveCommands e commandID of
        None \<Rightarrow> Inl (CommandNotFound commandID)
      | Some cmd \<Rightarrow> Inr (result_of (heap w cmd)))"

definition ExecuteCommandInBackground ::
  "spawn_env \<Rightarrow> string \<Rightarrow> ExecutionPipeline \<Rightarrow> world \<Rightarrow> (error + string) \<times> ExecutionPipeline \<times> world" where
  "ExecuteCommandInBackground env command p w =
     (case NewBackgroundCommand command (PipelineWorkingDir p) (now_id env) of
        Inl err \<Rightarrow> (Inl (CreateBackgroundFailed err), p, w)
      | Inr cmd \<Rightarrow>
         (case Start env cmd of
            (Some err, cmd') \<Rightarrow> (Inl (StartBackgroundFailed err), p, w)
          | (None, cmd') \<Rightarrow>
             (let (a, w1) = alloc cmd' w in
              (Inr (ID cmd'), p\<lparr> BackgroundCommands := (BackgroundCommands p)(ID cmd' \<mapsto> a) \<rparr>, w1))))"

text \<open>
  \<^verbatim>\<open>ExecutionPipeline.GetCommandStatus\<close>; \<open>now\<close> is the clock reading of
  \<^verbatim>\<open>time.Since\<close>. The first component of \<^verbatim>\<open>GetStatus\<close> is bound to \<^verbatim>\<open>running\<close>.
\<close>

definition ExecutionPipeline_GetCommandStatus ::
  "time \<Rightarrow> string \<Rightarrow> ExecutionPipeline \<Rightarrow> world \<Rightarrow> error + BackgroundCommandStatus" where
  "ExecutionPipeline_GetCommandStatus now commandID p w =
     (case BackgroundCommands p commandID of
        None \<Rightarrow> Inl (CommandIDNotFound commandID)
      | Some a \<Rightarrow>
         (let cmd = heap w a;
              (running, exitCode, output, errOutput, outputList, errorList) = GetStatus cmd;
              duration' =
                (if \<not> IsZero (StartTime cmd) then
                   (if IsZero (EndTime cmd) then Seconds (now - StartTime cmd)
                    else Seconds (EndTime cmd - StartTime cmd))
                 else 0)
          in Inr (NewBackgroundCommandStatus (ID cmd) (Command cmd) (WorkingDir cmd) running exitCode
                    output errOutput outputList errorList duration')))"

subsection \<open>The status streaming loop\<close>

record CommandStatusResponse =
  msg_Running :: bool
  msg_ExitCode :: int
  msg_Output :: string
  msg_Error :: string
  msg_OutputList :: "string list"
  msg_ErrorList :: "string list"
  msg_Duration :: real
  msg_Incremental :: bool
  msg_Complete :: bool

text \<open>
  What the handler writes to the WebSocket: the error object, a status message, or the
  close message with its reason.
\<close>

datatype frame = ErrorJSON string | StatusJSON CommandStatusResponse | CloseMessage string

text \<open>
  \<^verbatim>\<open>statusChanged\<close>. The source compares the two durations as \<^verbatim>\<open>float64\<close> values;
  here they are real numbers, so a difference within the rounding error of the threshold
  \<open>0.1\<close> can be decided differently.
\<close>

definition statusChanged :: "BackgroundCommandStatus \<Rightarrow> BackgroundCommandStatus \<Rightarrow> bool" where
  "statusChanged old new =
     (if st_Running old \<noteq> st_Running new then True
      else if st_ExitCode old \<noteq> st_ExitCode new then True
      else if length (st_OutputList old) \<noteq> length (st_OutputList new)
              \<or> length (st_ErrorList old) \<noteq> length (st_ErrorList new) then True
      else if st_Output old \<noteq> st_Output new \<or> st_Error old \<noteq> st_Error new then True
      else if st_Duration new > st_Duration old + 0.1 then True
      else False)"

text \<open>The local variables of \<^verbatim>\<open>streamCommandHandler\<close> that live across ticks.\<close>

record stream_state =
  lastStatus :: "BackgroundCommandStatus option"
  processedOutputLines :: nat
  processedErrorLines :: nat

definition stream_init :: stream_state where
  "stream_init = \<lparr> lastStatus = None, processedOutputLines = 0, processedErrorLines = 0 \<rparr>"

definition incremental_response ::
  "BackgroundCommandStatus \<Rightarrow> string list \<Rightarrow> string list \<Rightarrow> CommandStatusResponse" where
  "incremental_response status newOutputList newErrorList =
     \<lparr> msg_Running = st_Running status, msg_ExitCode = st_ExitCode status,
       msg_Output = st_Output status, msg_Error = st_Error status,
       msg_OutputList = newOutputList, msg_ErrorList = newErrorList,
       msg_Duration = st_Duration status, msg_Incremental = True, msg_Complete = False \<rparr>"

definition final_response :: "BackgroundCommandStatus \<Rightarrow> CommandStatusResponse" where
  "final_response status =
     \<lparr> msg_Running = st_Running status, msg_ExitCode = st_ExitCode status,
       msg_Output = st_Output status, msg_Error = st_Error status,
       msg_OutputList = st_OutputList status, msg_ErrorList = st_ErrorList status,
       msg_Duration = st_Duration status, msg_Incremental = False, msg_Complete = True \<rparr>"

text \<open>
  One pass through the \<^verbatim>\<open>case <-ticker.C\<close> branch. \<open>polled\<close> is what
  \<^verbatim>\<open>FlowManager.GetCommandStatus\<close> returned (for a planning flow, what its pipeline's
  \<^verbatim>\<open>GetCommandStatus\<close> returned); \<open>write_ok\<close> and \<open>final_ok\<close> say whether the first
  write of the tick and the write of the final message succeed. The result is the frames
  that reached the connection and the state for the next tick, \<open>None\<close> when the handler
  has returned (the deferred \<^verbatim>\<open>conn.Close()\<close> then closes the connection). The source
  ignores the results of the write of the error object and of the close message; the error
  object is recorded when \<open>write_ok\<close> holds, the close message always.
\<close>

definition stream_tick ::
  "stream_state \<Rightarrow> error + BackgroundCommandStatus \<Rightarrow> bool \<Rightarrow> bool \<Rightarrow> frame list \<times> stream_state option" where
  "stream_tick s polled write_ok final_ok =
     (case polled of
        Inl err \<Rightarrow>
          ((if write_ok then [ErrorJSON (''Failed to get command status: '' @ error_text err)] else []), None)
      | Inr status \<Rightarrow>
         (let hasNewOutput0 =
                (lastStatus s = None
                 \<or> length (st_OutputList status) > processedOutputLines s
                 \<or> length (st_ErrorList status) > processedErrorLines s);
              hasNewOutput =
                (case lastStatus s of
                   None \<Rightarrow> hasNewOutput0
                 | Some last' \<Rightarrow>
                     (if hasNewOutput0 then True
                      else if st_Running status \<noteq> st_Running last' then True
                      else st_ExitCode status \<noteq> st_ExitCode last'));
              (newOutputList, processedOutput) =
                (if length (st_OutputList status) > processedOutputLines s
                 then (drop (processedOutputLines s) (st_OutputList status), length (st_OutputList status))
                 else ([], processedOutputLines s));
              (newErrorList, processedError) =
                (if length (st_ErrorList status) > processedErrorLines s
                 then (drop (processedErrorLines s) (st_ErrorList status), length (st_ErrorList status))
                 else ([], processedErrorLines s));
              send =
                (if hasNewOutput then True
                 else (case lastStatus s of None \<Rightarrow> True | Some last' \<Rightarrow> statusChanged last' status))
          in
          if send then
            (if \<not> write_ok then ([], None)
             else if \<not> st_Running status \<and> length newOutputList = 0 \<and> length newErrorList = 0 then
               ([StatusJSON (incremental_response status newOutputList newErrorList)]
                  @ (if final_ok then [StatusJSON (final_response status)] else [])
                  @ [CloseMessage ''Command completed''], None)
             else
               ([StatusJSON (incremental_response status newOutputList newErrorList)],
                Some \<lparr> lastStatus = Some status, processedOutputLines = processedOutput,
                       processedErrorLines = processedError \<rparr>))
          else
            ([], Some \<lparr> lastStatus = lastStatus s, processedOutputLines = processedOutput,
                       processedErrorLines = processedError \<rparr>)))"

text \<open>
  What the \<^verbatim>\<open>select\<close> of the loop can receive: the request's context is done, or the
  ticker fires (with what the poll and the writes of that tick will give).
\<close>

datatype stream_event = CtxDone | Tick "error + BackgroundCommandStatus" bool bool

fun stream_step :: "stream_state \<Rightarrow> stream_event \<Rightarrow> frame list \<times> stream_state option" where
  "stream_step s CtxDone = ([], None)"
| "stream_step s (Tick polled write_ok final_ok) = stream_tick s polled write_ok final_ok"

text \<open>
  The loop over the events of one subscription: the frames written so far, and the state
  while the handler has not returned.
\<close>

fun stream_run :: "stream_state \<Rightarrow> stream_event list \<Rightarrow> frame list \<times> stream_state option" where
  "stream_run s [] = ([], Some s)"
| "stream_run s (ev # evs) =
     (case stream_step s ev of
        (fs, None) \<Rightarrow> (fs, None)
      | (fs, Some s') \<Rightarrow> (case stream_run s' evs of (gs, r) \<Rightarrow> (fs @ gs, r)))"

text \<open>The lines an observer has been sent, message after message.\<close>

fun frame_output :: "frame \<Rightarrow> string list" where
  "frame_output (StatusJSON m) = msg_OutputList m"
| "frame_output _ = []"

fun frame_error :: "frame \<Rightarrow> string list" where
  "frame_error (StatusJSON m) = msg_ErrorList m"
| "frame_error _ = []"

fun is_complete :: "frame \<Rightarrow> bool" where
  "is_complete (StatusJSON m) = msg_Complete m"
| "is_complete _ = False"

fun is_incremental :: "frame \<Rightarrow> bool" where
  "is_incremental (StatusJSON m) = msg_Incremental m"
| "is_incremental _ = False"

definition delivered_output :: "frame list \<Rightarrow> string list" where
  "delivered_output fs = concat (map frame_output fs)"

definition delivered_error :: "frame list \<Rightarrow> string list" where
  "delivered_error fs = concat (map frame_error fs)"

subsection \<open>The synchronous command\<close>

record Command' =
  Cmd :: string
  Args :: "string list"
  Dir :: string
  Env :: "string list"
  Timeout :: duration
  Streaming :: bool
  outputList :: "string list"
  errorList :: "string list"

text \<open>
  \<^verbatim>\<open>CommandResult\<close>; the source formats the two times as RFC 3339 strings, the model
  keeps the times.
\<close>

record CommandResult =
  cr_Success :: bool
  cr_ExitCode :: int
  cr_Output :: string
  cr_Error :: string
  cr_StartTime :: time
  cr_EndTime :: time
  cr_Duration :: real
  cr_OutputList :: "string list"
  cr_ErrorList :: "string list"


definition NewShellCommand :: "string \<Rightarrow> string \<Rightarrow> Command'" where
  "NewShellCommand cmdStr dir =
     \<lparr> Cmd = ''sh'', Args = [''-c'', cmdStr], Dir = dir, Env = [], Timeout = 60 * Second,
       Streaming = False, outputList = [], errorList = [] \<rparr>"

definition WithTimeout :: "duration \<Rightarrow> Command' \<Rightarrow> Command'" where
  "WithTimeout timeout c = c\<lparr> Timeout := timeout \<rparr>"



text \<open>
  The errors of \<^verbatim>\<open>Execute\<close>: a failure to spawn, or the timeout, whose message
  \<^verbatim>\<open>"command timed out after %v seconds"\<close> is built from the command's timeout.
\<close>

datatype exec_error = SpawnError error | TimedOut duration

text \<open>
  The operating system as \<^verbatim>\<open>Execute\<close> meets it: the clock at the start, the three
  fallible steps of spawning, how long the process runs when nothing kills it, what
  \<^verbatim>\<open>cmd.Wait()\<close> returns when the process ends by itself, the bytes the process writes
  and the lines the two scanners cut them into (lines beyond the buffer of a scanner are
  not modelled). \<open>x_pipes_closed\<close> is the time, counted from the start, at which the last
  holder of the write ends of the two output pipes has closed them; the holders are the
  process and every descendant that inherited them, and \<open>None\<close> says that some holder
  never closes them.
\<close>

record exec_env =
  x_now :: time
  x_stdout_pipe_err :: "string option"
  x_stderr_pipe_err :: "string option"
  x_start_err :: "string option"
  x_run_time :: duration
  x_wait :: wait_result
  x_pipes_closed :: "duration option"
  x_stdout :: string
  x_stderr :: string
  x_stdout_lines :: "string list"
  x_stderr_lines :: "string list"

text \<open>
  \<^verbatim>\<open>strings.TrimSpace\<close> on the bytes of a string: it removes, at both ends, the UTF-8
  encodings of the code points with the Unicode property White_Space (those of
  \<^verbatim>\<open>unicode.IsSpace\<close>): U+0009 to U+000D, U+0020, U+0085, U+00A0, U+1680, U+2000 to
  U+200A, U+2028, U+2029, U+202F, U+205F and U+3000. A continuation byte starts no code
  point, so an encoding that ends the string is found as a suffix of its bytes.
\<close>

definition space_codes :: "string list" where
  "space_codes =
     [[CHR 0x09], [CHR 0x0A], [CHR 0x0B], [CHR 0x0C], [CHR 0x0D], [CHR 0x20],
      [CHR 0xC2, CHR 0x85], [CHR 0xC2, CHR 0xA0], [CHR 0xE1, CHR 0x9A, CHR 0x80],
      [CHR 0xE2, CHR 0x80, CHR 0x80], [CHR 0xE2, CHR 0x80, CHR 0x81], [CHR 0xE2, CHR 0x80, CHR 0x82],
      [CHR 0xE2, CHR 0x80, CHR 0x83], [CHR 0xE2, CHR 0x80, CHR 0x84], [CHR 0xE2, CHR 0x80, CHR 0x85],
      [CHR 0xE2, CHR 0x80, CHR 0x86], [CHR 0xE2, CHR 0x80, CHR 0x87], [CHR 0xE2, CHR 0x80, CHR 0x88],
      [CHR 0xE2, CHR 0x80, CHR 0x89], [CHR 0xE2, CHR 0x80, CHR 0x8A], [CHR 0xE2, CHR 0x80, CHR 0xA8],
      [CHR 0xE2, CHR 0x80, CHR 0xA9], [CHR 0xE2, CHR 0x80, CHR 0xAF], [CHR 0xE2, CHR 0x81, CHR 0x9F],
      [CHR 0xE3, CHR 0x80, CHR 0x80]]"

text \<open>The number of bytes of the code among \<open>codes\<close> that starts \<open>s\<close>, 0 when none does.\<close>

definition leading_code :: "string list \<Rightarrow> string \<Rightarrow> nat" where
  "leading_code codes s =
     (case find (\<lambda>code. prefix code s) codes of None \<Rightarrow> 0 | Some code \<Rightarrow> length code)"

function strip_leading :: "string list \<Rightarrow> string \<Rightarrow> string" where
  "strip_leading codes s =
     (if leading_code codes s = 0 then s else strip_leading codes (drop (leading_code codes s) s))"
  by pat_completeness auto
termination
proof (relation "measure (\<lambda>(codes, s). length s)")
  show "wf (measure (\<lambda>(codes, s). length s))" by simp
next
  fix codes :: "string list" and s :: string
  assume n: "leading_code codes s \<noteq> 0"
  then obtain code where f: "find (\<lambda>code. prefix code s) codes = Some code" and l: "length code \<noteq> 0"
    by (auto simp: leading_code_def split: option.splits)
  from f have "prefix code s" by (auto simp: find_Some_iff)
  with l have "s \<noteq> []" by auto
  with n show "((codes, drop (leading_code codes s) s), (codes, s)) \<in> measure (\<lambda>(codes, s). length s)"
    by simp
qed

declare strip_leading.simps [simp del]

definition TrimSpace :: "string \<Rightarrow> string" where
  "TrimSpace s = rev (strip_leading (map rev space_codes) (rev (strip_leading space_codes s)))"

text \<open>
  \<^verbatim>\<open>context.WithTimeout(context.Background(), c.Timeout)\<close> with
  \<^verbatim>\<open>exec.CommandContext\<close>: the context expires \<^verbatim>\<open>c.Timeout\<close> after its creation, and
  a process that is still running then is killed; \<^verbatim>\<open>ctx.Err()\<close> is
  \<^verbatim>\<open>context.DeadlineExceeded\<close> from then on.
\<close>

definition killed_at_deadline :: "Command' \<Rightarrow> exec_env \<Rightarrow> bool" where
  "killed_at_deadline c env = (Timeout c \<le> x_run_time env)"

text \<open>
  \<^verbatim>\<open>Command.Execute\<close>: the result or the error, and the receiver as the call leaves it
  (the streaming readers append to its line lists). After the start the call waits: with
  streaming in \<^verbatim>\<open>wg.Wait()\<close>, the step that the source marks "Wait for output
  processing to complete", until both scanners have read the end of their pipes,
  without streaming in \<^verbatim>\<open>cmd.Wait()\<close> until the goroutines that copy the pipes into the
  two buffers have read the end; both ends come only once every holder has closed the
  pipes, and no \<^verbatim>\<open>WaitDelay\<close> bounds the wait. So the call returns at the later of the
  end of the process and \<open>x_pipes_closed\<close>, and \<open>None\<close> says that it never returns. The
  test of \<^verbatim>\<open>ctx.Err()\<close> comes after the wait: it sees the deadline exceeded when the call
  returns at or after the deadline. A killed process makes \<^verbatim>\<open>cmd.Wait()\<close> return an
  \<^verbatim>\<open>*exec.ExitError\<close> whose \<^verbatim>\<open>ExitCode()\<close> is \<open>-1\<close>.
\<close>

definition Execute ::
  "Command' \<Rightarrow> exec_env \<Rightarrow> ((exec_error + CommandResult) \<times> Command') option" where
  "Execute c env =
     (let startTime = x_now env;
          pipes =
            (if Streaming c then
               (case x_stdout_pipe_err env of
                  Some e \<Rightarrow> Some (StdoutPipeFailed e)
                | None \<Rightarrow>
                   (case x_stderr_pipe_err env of
                      Some e \<Rightarrow> Some (StderrPipeFailed e)
                    | None \<Rightarrow> None))
             else None)
      in
      case pipes of
        Some e \<Rightarrow> Some (Inl (SpawnError e), c)
      | None \<Rightarrow>
         (case x_start_err env of
            Some e \<Rightarrow> Some (Inl (SpawnError (StartCommandFailed e)), c)
          | None \<Rightarrow>
             (case x_pipes_closed env of
                None \<Rightarrow> None
              | Some closed_at \<Rightarrow>
                 (let c1 =
                        (if Streaming c then
                           c\<lparr> outputList := outputList c @ x_stdout_lines env,
                              errorList := errorList c @ x_stderr_lines env \<rparr>
                         else c);
                      stdoutBuf =
                        (if Streaming c then concat (map (\<lambda>line. line @ newline) (x_stdout_lines env))
                         else x_stdout env);
                      stderrBuf =
                        (if Streaming c then concat (map (\<lambda>line. line @ newline) (x_stderr_lines env))
                         else x_stderr env);
                      err = (if killed_at_deadline c env then WaitExitError (- 1) else x_wait env);
                      returned = max (min (x_run_time env) (Timeout c)) closed_at;
                      endTime = startTime + returned;
                      result =
                        \<lparr> cr_Success = (err = WaitNil),
                          cr_ExitCode = (case err of WaitExitError n \<Rightarrow> n | _ \<Rightarrow> 0),
                          cr_Output = TrimSpace stdoutBuf,
                          cr_Error = TrimSpace stderrBuf,
                          cr_StartTime = startTime,
                          cr_EndTime = endTime,
                          cr_Duration = Seconds (endTime - startTime),
                          cr_OutputList = (if Streaming c then outputList c1 else []),
                          cr_ErrorList = (if Streaming c then errorList c1 else []) \<rparr>
                  in
                  if Timeout c \<le> returned then Some (Inl (TimedOut (Timeout c)), c1)
                  else Some (Inr result, c1)))))"



subsection \<open>Observers of a stream\<close>

text \<open>The snapshots that the ticks of a subscription polled, in order.\<close>

fun polled_statuses :: "stream_event list \<Rightarrow> BackgroundCommandStatus list" where
  "polled_statuses [] = []"
| "polled_statuses (Tick (Inr st) write_ok final_ok # evs) = st # polled_statuses evs"
| "polled_statuses (ev # evs) = polled_statuses evs"

text \<open>Every snapshot extends the line lists of the one before.\<close>

definition append_only :: "stream_event list \<Rightarrow> bool" where
  "append_only evs =
     (sorted_wrt prefix (map st_OutputList (polled_statuses evs))
      \<and> sorted_wrt prefix (map st_ErrorList (polled_statuses evs)))"

text \<open>The lines of the incremental messages alone.\<close>

definition incremental_output :: "frame list \<Rightarrow> string list" where
  "incremental_output fs = concat (map frame_output (filter is_incremental fs))"

definition incremental_error :: "frame list \<Rightarrow> string list" where
  "incremental_error fs = concat (map frame_error (filter is_incremental fs))"

text \<open>
  Several subscriptions at once: every call of the handler has its own local variables,
  so an observer is the frames it was sent and the state of its own handler, and a
  schedule says whose \<^verbatim>\<open>select\<close> receives which event.
\<close>

type_synonym observer = "frame list \<times> stream_state option"

definition observer_step :: "observer \<Rightarrow> stream_event \<Rightarrow> observer" where
  "observer_step ob ev =
     (case ob of
        (fs, None) \<Rightarrow> (fs, None)
      | (fs, Some s) \<Rightarrow> (case stream_step s ev of (gs, r) \<Rightarrow> (fs @ gs, r)))"

fun observers_run :: "observer list \<Rightarrow> (nat \<times> stream_event) list \<Rightarrow> observer list" where
  "observers_run obs [] = obs"
| "observers_run obs ((k, ev) # sched) =
     observers_run (if k < length obs then obs[k := observer_step (obs ! k) ev] else obs) sched"

subsection \<open>Concrete runs\<close>

text \<open>The zero value of the struct, an empty world, and a spawn on which nothing fails.\<close>

definition zero_command :: BackgroundCommand where
  "zero_command =
     \<lparr> ID = [], Command = [], WorkingDir = [], StartTime = zero_time, EndTime = zero_time,
       Duration = 0, ExitCode = 0, Output = [], Error = [], OutputLines = [], ErrorLines = [],
       Done = False \<rparr>"

definition world0 :: world where
  "world0 = \<lparr> heap = (\<lambda>a. zero_command), next_addr = 0, commands = Map.empty \<rparr>"

definition env_ok :: "time \<Rightarrow> time \<Rightarrow> spawn_env" where
  "env_ok t1 t2 =
     \<lparr> now_id = t1, now_start = t2, stdout_pipe_err = None, stderr_pipe_err = None,
       start_err = None \<rparr>"

definition env_fail :: spawn_env where
  "env_fail =
     \<lparr> now_id = 1000, now_start = 1001, stdout_pipe_err = None, stderr_pipe_err = None,
       start_err = Some ''chdir /nonexistent: no such file or directory'' \<rparr>"

text \<open>
  A command started through the pipeline in \<^verbatim>\<open>/tmp\<close>, the clock reading 1000 ns at the
  identifier and 1001 ns at the start; it lives at address 0 under the id \<^verbatim>\<open>cmd-1000\<close>.
\<close>

definition started :: "string \<Rightarrow> (error + string) \<times> ExecutionPipeline \<times> world" where
  "started command =
     ExecuteCommandInBackground (env_ok 1000 1001) command (NewExecutionPipeline ''/tmp'') world0"

text \<open>What the pipeline answers at clock reading \<open>now\<close> once the process events \<open>es\<close> have happened.\<close>

definition poll_after :: "string \<Rightarrow> event list \<Rightarrow> time \<Rightarrow> error + BackgroundCommandStatus" where
  "poll_after command es now =
     (case started command of
        (r, p, w) \<Rightarrow>
          (case world_run 0 es w of
             None \<Rightarrow> Inl (CommandIDNotFound [])
           | Some w' \<Rightarrow> ExecutionPipeline_GetCommandStatus now ''cmd-1000'' p w'))"

definition final_lines :: "string \<Rightarrow> event list \<Rightarrow> string list option" where
  "final_lines command es =
     (case started command of
        (r, p, w) \<Rightarrow> map_option (\<lambda>w'. OutputLines (heap w' 0)) (world_run 0 es w))"

text \<open>The snapshot of the finished command \<^verbatim>\<open>sleep 2 && echo done\<close>, and a snapshot of
  \<^verbatim>\<open>echo a; sleep 5\<close> while it sleeps.\<close>

definition finished_status :: BackgroundCommandStatus where
  "finished_status =
     \<lparr> st_ID = ''cmd-1000'', st_Command = ''sleep 2 && echo done'', st_WorkingDir = ''/tmp'',
       st_Running = True, st_ExitCode = 0, st_Output = ''done'', st_Error = [],
       st_OutputList = [''done''], st_ErrorList = [], st_Duration = 2 \<rparr>"

definition sleeping_status :: "real \<Rightarrow> BackgroundCommandStatus" where
  "sleeping_status d =
     \<lparr> st_ID = ''cmd-1000'', st_Command = ''echo a; sleep 5'', st_WorkingDir = ''/tmp'',
       st_Running = False, st_ExitCode = 0, st_Output = ''a'', st_Error = [],
       st_OutputList = [''a''], st_ErrorList = [], st_Duration = d \<rparr>"

definition late_state :: stream_state where
  "late_state =
     \<lparr> lastStatus = Some finished_status, processedOutputLines = 1, processedErrorLines = 0 \<rparr>"

text \<open>Two commands spawned at the same reading of the clock.\<close>

definition two_spawns :: "((error + addr) \<times> (error + addr)) \<times> world" where
  "two_spawns =
     (case ExecuteCommandWithStreaming (env_ok 1000 1001) ''echo one'' [] world0 of
        (r1, w1) \<Rightarrow>
          (case ExecuteCommandWithStreaming (env_ok 1000 1002) ''echo two'' [] w1 of
             (r2, w2) \<Rightarrow> ((r1, r2), w2)))"

text \<open>
  A command spawned by \<^verbatim>\<open>ExecuteCommandWithStreaming\<close> (address 0, registered as
  \<^verbatim>\<open>cmd-1000\<close>) and one started through a pipeline (address 1, \<^verbatim>\<open>cmd-2000\<close> in the
  pipeline's map), then both run to their end; \<open>finished_world\<close> is the world that
  results.
\<close>

definition both_started :: "ExecutionPipeline \<times> world" where
  "both_started =
     (case ExecuteCommandWithStreaming (env_ok 1000 1001) ''echo one'' [] world0 of
        (r1, w1) \<Rightarrow>
          (case ExecuteCommandInBackground (env_ok 2000 2001) ''echo two; exit 3'' (NewExecutionPipeline ''/tmp'') w1 of
             (r2, p, w2) \<Rightarrow> (p, w2)))"

definition both_finished :: "world option" where
  "both_finished =
     (case world_run 0 [StdoutLine ''one'', ProcExit WaitNil 3001001] (snd both_started) of
        None \<Rightarrow> None
      | Some w \<Rightarrow> world_run 1 [StdoutLine ''two'', ProcExit (WaitExitError 3) 4002001] w)"

definition command_one :: BackgroundCommand where
  "command_one =
     \<lparr> ID = ''cmd-1000'', Command = ''echo one'', WorkingDir = [], StartTime = 1001,
       EndTime = 3001001, Duration = 3000000, ExitCode = 0, Output = ''one'', Error = [],
       OutputLines = [''one''], ErrorLines = [], Done = True \<rparr>"

definition command_two :: BackgroundCommand where
  "command_two =
     \<lparr> ID = ''cmd-2000'', Command = ''echo two; exit 3'', WorkingDir = ''/tmp'', StartTime = 2001,
       EndTime = 4002001, Duration = 4000000, ExitCode = 3, Output = ''two'', Error = [],
       OutputLines = [''two''], ErrorLines = [], Done = True \<rparr>"

definition finished_world :: world where
  "finished_world =
     \<lparr> heap = (\<lambda>a. zero_command)(0 := command_one, Suc 0 := command_two),
       next_addr = 2, commands = [''cmd-1000'' \<mapsto> 0] \<rparr>"

text \<open>A synchronous run of \<^verbatim>\<open>echo hello\<close> through the streaming executor.\<close>

definition sync_run ::
  "((ExecutionResult \<times> error option) \<times> StreamingExecutor \<times> world) option" where
  "sync_run =
     StreamingExecutor_ExecuteCommand 2000 (env_ok 1000 1001)
       [StdoutLine ''hello'', ProcExit WaitNil 5001001] ''echo hello'' [] NewStreamingExecutor world0"



definition env_io :: exec_env where
  "env_io =
     \<lparr> x_now = 0, x_stdout_pipe_err = None, x_stderr_pipe_err = None, x_start_err = None,
       x_run_time = Second, x_wait = WaitOtherError ''read |0: input/output error'',
       x_pipes_closed = Some Second, x_stdout = ''partial'', x_stderr = [], x_stdout_lines = [''partial''], x_stderr_lines = [] \<rparr>"

section \<open>Properties\<close>

subsection \<open>Shared facts\<close>

lemma cmd_id_1000: "cmd_id 1000 = ''cmd-1000''"
  by (simp add: cmd_id_def show_int_def show_nat.simps digit_char_def)

lemma cmd_id_2000: "cmd_id 2000 = ''cmd-2000''"
  by (simp add: cmd_id_def show_int_def show_nat.simps digit_char_def)

lemma bg_event_prefix:
  "bg_event e c = Some c' \<Longrightarrow>
     prefix (OutputLines c) (OutputLines c') \<and> prefix (ErrorLines c) (ErrorLines c')"
  by (cases e) (auto simp: AppendOutput_def AppendError_def waiter_def split: if_splits)

lemma bg_event_frozen:
  "bg_event e c = Some c' \<Longrightarrow> Done c \<Longrightarrow>
     Done c' \<and> ExitCode c' = ExitCode c \<and> Output c' = Output c \<and> Error c' = Error c
      \<and> EndTime c' = EndTime c \<and> Duration c' = Duration c"
  by (cases e) (auto simp: AppendOutput_def AppendError_def split: if_splits)

lemma bg_run_prefix:
  "bg_run es c = Some c' \<Longrightarrow>
     prefix (OutputLines c) (OutputLines c') \<and> prefix (ErrorLines c) (ErrorLines c')"
proof (induction es arbitrary: c)
  case Nil
  then show ?case by simp
next
  case (Cons e es)
  then obtain c1 where s: "bg_event e c = Some c1" and r: "bg_run es c1 = Some c'"
    by (auto split: option.splits)
  from bg_event_prefix [OF s] Cons.IH [OF r] show ?case
    by (meson prefix_order.trans)
qed

lemma bg_run_frozen:
  "bg_run es c = Some c' \<Longrightarrow> Done c \<Longrightarrow>
     Done c' \<and> ExitCode c' = ExitCode c \<and> Output c' = Output c \<and> Error c' = Error c
      \<and> EndTime c' = EndTime c \<and> Duration c' = Duration c"
proof (induction es arbitrary: c)
  case Nil
  then show ?case by simp
next
  case (Cons e es)
  then obtain c1 where s: "bg_event e c = Some c1" and r: "bg_run es c1 = Some c'"
    by (auto split: option.splits)
  from bg_event_frozen [OF s \<open>Done c\<close>] Cons.IH [OF r] show ?case
    by simp
qed

lemma world_event_keeps:
  "world_event a e w = Some w' \<Longrightarrow>
     commands w' = commands w \<and> next_addr w' = next_addr w
     \<and> bg_event e (heap w a) = Some (heap w' a) \<and> (\<forall>b. b \<noteq> a \<longrightarrow> heap w' b = heap w b)"
  by (auto simp: world_event_def split: option.splits)

lemma world_run_keeps:
  "world_run a es w = Some w' \<Longrightarrow>
     commands w' = commands w \<and> next_addr w' = next_addr w
     \<and> bg_run es (heap w a) = Some (heap w' a) \<and> (\<forall>b. b \<noteq> a \<longrightarrow> heap w' b = heap w b)"
proof (induction es arbitrary: w)
  case Nil
  then show ?case by simp
next
  case (Cons e es)
  then obtain w1 where s: "world_event a e w = Some w1" and r: "world_run a es w1 = Some w'"
    by (auto split: option.splits)
  from world_event_keeps [OF s] Cons.IH [OF r] show ?case
    by simp
qed

text \<open>What \<open>started\<close> builds.\<close>

lemma started_eq:
  "started command =
     (Inr ''cmd-1000'',
      \<lparr> Executor = NewStreamingExecutor, PipelineWorkingDir = ''/tmp'',
        BackgroundCommands = [''cmd-1000'' \<mapsto> 0] \<rparr>,
      \<lparr> heap = (\<lambda>a. zero_command)
          (0 := \<lparr> ID = ''cmd-1000'', Command = command, WorkingDir = ''/tmp'', StartTime = 1001,
                  EndTime = zero_time, Duration = 0, ExitCode = 0, Output = [], Error = [],
                  OutputLines = [], ErrorLines = [], Done = False \<rparr>),
        next_addr = 1, commands = Map.empty \<rparr>)"
  by (simp add: started_def ExecuteCommandInBackground_def NewBackgroundCommand_def Start_def
      env_ok_def alloc_def world0_def cmd_id_1000 NewExecutionPipeline_def)

subsection \<open>The running flag of a snapshot\<close>

text \<open>In every state the running flag of the pipeline's snapshot is the done flag of the command.\<close>

lemma pipeline_running_is_done:
  assumes "BackgroundCommands p i = Some a"
  shows "\<exists>st. ExecutionPipeline_GetCommandStatus now i p w = Inr st \<and> st_Running st = Done (heap w a)"
  using assms
  by (simp add: ExecutionPipeline_GetCommandStatus_def GetStatus_def NewBackgroundCommandStatus_def Let_def)

text \<open>
  Claim C1 says that a snapshot of a command started through the pipeline has
  \<open>running = true\<close> while the process has not exited and \<open>running = false\<close> with the final
  exit code and output afterwards. \<^verbatim>\<open>ExecutionPipeline.GetCommandStatus\<close> binds the first
  result of \<^verbatim>\<open>GetStatus\<close>, which is \<open>True\<close> when \<^verbatim>\<open>Done\<close> is closed, to \<^verbatim>\<open>running\<close>:
  for \<^verbatim>\<open>sleep 2 && echo done\<close> the snapshot half a second after the start has
  \<open>running = False\<close>, and the snapshot after the exit has \<open>running = True\<close>.
\<close>

theorem running_flag_is_done_flag:
  "poll_after ''sleep 2 && echo done'' [] 500001001
     = Inr \<lparr> st_ID = ''cmd-1000'', st_Command = ''sleep 2 && echo done'', st_WorkingDir = ''/tmp'',
             st_Running = False, st_ExitCode = 0, st_Output = [], st_Error = [],
             st_OutputList = [], st_ErrorList = [], st_Duration = 1 / 2 \<rparr>
   \<and> poll_after ''sleep 2 && echo done'' [StdoutLine ''done'', ProcExit WaitNil 2000001001] 3000001001
     = Inr \<lparr> st_ID = ''cmd-1000'', st_Command = ''sleep 2 && echo done'', st_WorkingDir = ''/tmp'',
             st_Running = True, st_ExitCode = 0, st_Output = ''done'', st_Error = [],
             st_OutputList = [''done''], st_ErrorList = [], st_Duration = 2 \<rparr>"
  by (simp add: poll_after_def started_eq ExecutionPipeline_GetCommandStatus_def GetStatus_def
      NewBackgroundCommandStatus_def IsZero_def zero_time_def Seconds_def world_event_def
      AppendOutput_def waiter_def wait_exit_code_def newline_def)

subsection \<open>Failure to spawn\<close>

text \<open>
  Claim C4: when the process cannot be spawned (one of the pipes cannot be created, or
  the start fails, as for a missing shell, a denied permission or an invalid working
  directory), the start operation returns an error to its caller and no command is
  created or registered: \<^verbatim>\<open>ExecuteCommandWithStreaming\<close> returns the error and leaves the
  heap and the registry as they were, and \<^verbatim>\<open>ExecuteCommandInBackground\<close> returns the
  wrapped error and leaves the pipeline's map as it was.
\<close>

theorem spawn_failure_returns_error:
  assumes "stdout_pipe_err env \<noteq> None \<or> stderr_pipe_err env \<noteq> None \<or> start_err env \<noteq> None"
  shows "(\<exists>e. ExecuteCommandWithStreaming env command workingDir w = (Inl e, w))
       \<and> (\<exists>e. ExecuteCommandInBackground env command p w = (Inl (StartBackgroundFailed e), p, w))"
  using assms
  by (auto simp: ExecuteCommandWithStreaming_def ExecuteCommandInBackground_def
      NewBackgroundCommand_def Start_def Let_def split: option.splits)

theorem spawn_failure_returns_error_witness:
  "start_err env_fail \<noteq> None
   \<and> ExecuteCommandWithStreaming env_fail ''ls'' ''/nonexistent'' world0
       = (Inl (StartCommandFailed ''chdir /nonexistent: no such file or directory''), world0)
   \<and> GetCommand ''cmd-1000'' (snd (ExecuteCommandWithStreaming env_fail ''ls'' ''/nonexistent'' world0))
       = Inl (CommandNotFound ''cmd-1000'')
   \<and> fst (ExecuteCommandInBackground env_fail ''ls'' (NewExecutionPipeline ''/nonexistent'') world0)
       = Inl (StartBackgroundFailed (StartCommandFailed ''chdir /nonexistent: no such file or directory''))"
  using spawn_failure_returns_error
    [of env_fail "''ls''" "''/nonexistent''" world0 "NewExecutionPipeline ''/nonexistent''"]
  by (auto simp: env_fail_def ExecuteCommandWithStreaming_def world0_def GetCommand_def
      ExecuteCommandInBackground_def NewBackgroundCommand_def Start_def)

text \<open>
  The caller \<^verbatim>\<open>StreamingExecutor.ExecuteCommand\<close> receives that error, stores nothing in
  \<^verbatim>\<open>ActiveCommands\<close>, and hands its own caller a result with exit code \<open>-1\<close> and a
  \<^verbatim>\<open>nil\<close> error.
\<close>

lemma streaming_executor_spawn_failure:
  assumes "stdout_pipe_err env \<noteq> None \<or> stderr_pipe_err env \<noteq> None \<or> start_err env \<noteq> None"
  shows "\<exists>r. StreamingExecutor_ExecuteCommand now env evs command workingDir e w = Some ((r, None), e, w)
           \<and> \<not> res_Success r \<and> res_ExitCode r = - 1"
  using assms
  by (auto simp: StreamingExecutor_ExecuteCommand_def ExecuteCommandWithStreaming_def Let_def
      split: option.splits)

subsection \<open>Success and exit code\<close>

text \<open>
  The streaming executor sets \<^verbatim>\<open>Success\<close> from the exit code and never returns an error;
  the waiting goroutine gives exit code 1 to a wait error that is no \<^verbatim>\<open>*exec.ExitError\<close>.
\<close>

lemma streaming_executor_success_iff:
  assumes "StreamingExecutor_ExecuteCommand now env evs command workingDir e w = Some ((r, err), e', w')"
  shows "err = None \<and> (res_Success r \<longleftrightarrow> res_ExitCode r = 0)"
  using assms
  by (auto simp: StreamingExecutor_ExecuteCommand_def Let_def result_of_def
      split: prod.splits sum.splits option.splits if_splits)

lemma waiter_other_error_exit_code: "ExitCode (waiter (WaitOtherError msg) now c) = 1"
  by (simp add: waiter_def wait_exit_code_def)

text \<open>
  \<^verbatim>\<open>Command.Execute\<close> agrees as long as the wait returns \<^verbatim>\<open>nil\<close> or an
  \<^verbatim>\<open>*exec.ExitError\<close> with a nonzero code.
\<close>

lemma execute_success_iff:
  assumes "Execute c env = Some (Inr r, c')"
    and "x_wait env = WaitNil \<or> (\<exists>n. n \<noteq> 0 \<and> x_wait env = WaitExitError n)"
  shows "cr_Success r \<longleftrightarrow> cr_ExitCode r = 0"
  using assms
  by (auto simp: Execute_def Let_def killed_at_deadline_def split: option.splits if_splits)

lemma TrimSpace_partial: "TrimSpace ''partial'' = ''partial''"
  by (simp add: TrimSpace_def strip_leading.simps leading_code_def space_codes_def)

lemma TrimSpace_empty: "TrimSpace [] = []"
  by (simp add: TrimSpace_def strip_leading.simps leading_code_def space_codes_def)

text \<open>
  Claim C5 says that every returned result has \<open>success = true\<close> exactly when
  \<open>exitCode = 0\<close>, with a \<^verbatim>\<open>nil\<close> error. \<^verbatim>\<open>Command.Execute\<close> sets \<^verbatim>\<open>Success\<close> from
  \<^verbatim>\<open>err == nil\<close> and \<^verbatim>\<open>ExitCode\<close> only from an \<^verbatim>\<open>*exec.ExitError\<close>: when
  \<^verbatim>\<open>cmd.Wait()\<close> returns an error of another type (an I/O error while the output is
  copied), the result has \<open>success = False\<close> and \<open>exitCode = 0\<close>.
\<close>

theorem execute_failure_with_exit_code_zero:
  "map_option fst (Execute (NewShellCommand ''cat data.log'' []) env_io)
     = Some (Inr \<lparr> cr_Success = False, cr_ExitCode = 0, cr_Output = ''partial'', cr_Error = [],
                   cr_StartTime = 0, cr_EndTime = 1000000000, cr_Duration = 1,
                   cr_OutputList = [], cr_ErrorList = [] \<rparr>)"
  by (simp add: Execute_def NewShellCommand_def env_io_def killed_at_deadline_def Second_def
      TrimSpace_partial TrimSpace_empty Seconds_def)

subsection \<open>Append-only buffers and frozen results\<close>

text \<open>
  Claim C6: over any events of a command's life, the line lists of a later snapshot
  extend those of an earlier one, so their lengths never decrease; and once \<^verbatim>\<open>Done\<close> is
  closed (the first component of the earlier snapshot), every later snapshot is done as
  well and has the same exit code, output string and error string.
\<close>

theorem snapshots_append_only_and_frozen:
  assumes "bg_run es c = Some c'"
    and "GetStatus c = (d, exitCode, out, err, outList, errList)"
    and "GetStatus c' = (d', exitCode', out', err', outList', errList')"
  shows "length outList \<le> length outList' \<and> length errList \<le> length errList'
       \<and> prefix outList outList' \<and> prefix errList errList'
       \<and> (d \<longrightarrow> d' \<and> exitCode' = exitCode \<and> out' = out \<and> err' = err)"
proof -
  have p: "prefix (OutputLines c) (OutputLines c') \<and> prefix (ErrorLines c) (ErrorLines c')"
    using bg_run_prefix [OF assms(1)] .
  have ol: "outList = OutputLines c" "errList = ErrorLines c" "d = Done c"
    using assms(2) by (auto simp: GetStatus_def Let_def split: if_splits)
  have ol': "outList' = OutputLines c'" "errList' = ErrorLines c'"
    using assms(3) by (auto simp: GetStatus_def Let_def split: if_splits)
  have fr: "d \<longrightarrow> d' \<and> exitCode' = exitCode \<and> out' = out \<and> err' = err"
  proof
    assume d
    then have dc: "Done c" using ol by simp
    from bg_run_frozen [OF assms(1) dc] dc assms(2) assms(3)
    show "d' \<and> exitCode' = exitCode \<and> out' = out \<and> err' = err"
      by (auto simp: GetStatus_def Let_def split: if_splits)
  qed
  show ?thesis using p ol ol' fr by (auto dest: prefix_length_le)
qed

theorem snapshots_append_only_and_frozen_witness:
  "bg_run [StderrLine ''late warning'']
       (waiter (WaitExitError 3) 9000 (AppendOutput ''one'' zero_command))
     = Some (AppendError ''late warning'' (waiter (WaitExitError 3) 9000 (AppendOutput ''one'' zero_command)))
   \<and> GetStatus (waiter (WaitExitError 3) 9000 (AppendOutput ''one'' zero_command))
     = (True, 3, ''one'', [], [''one''], [])
   \<and> GetStatus (AppendError ''late warning'' (waiter (WaitExitError 3) 9000 (AppendOutput ''one'' zero_command)))
     = (True, 3, ''one'', [], [''one''], [''late warning''])
   \<and> length ([] :: string list) \<le> length [''late warning'']"
  using snapshots_append_only_and_frozen
    [of "[StderrLine ''late warning'']" "waiter (WaitExitError 3) 9000 (AppendOutput ''one'' zero_command)"
        "AppendError ''late warning'' (waiter (WaitExitError 3) 9000 (AppendOutput ''one'' zero_command))"
        True 3 "''one''" "[]" "[''one'']" "[]" True 3 "''one''" "[]" "[''one'']" "[''late warning'']"]
  by (simp add: GetStatus_def waiter_def AppendOutput_def AppendError_def zero_command_def
      wait_exit_code_def newline_def)

subsection \<open>Identifiers\<close>

text \<open>The decimal rendering is injective, so two ids are equal exactly when the clock readings are.\<close>

lemma digit_char_inj: "a < 10 \<Longrightarrow> b < 10 \<Longrightarrow> digit_char a = digit_char b \<Longrightarrow> a = b"
proof -
  assume a: "a < 10" and b: "b < 10" and e: "digit_char a = digit_char b"
  have d: "distinct ''0123456789''" by simp
  have l: "length ''0123456789'' = 10" by simp
  from e have "''0123456789'' ! a = ''0123456789'' ! b" by (simp add: digit_char_def)
  with d a b l show "a = b" by (metis nth_eq_iff_index_eq)
qed

lemma digit_char_digit: "d < 10 \<Longrightarrow> digit_char d \<in> set ''0123456789''"
  unfolding digit_char_def by (rule nth_mem) simp

lemma show_nat_nonempty: "show_nat n \<noteq> []"
  by (subst show_nat.simps) simp

lemma show_nat_digits: "set (show_nat n) \<subseteq> set ''0123456789''"
proof (induction n rule: show_nat.induct)
  case (1 n)
  show ?case
  proof (cases "n < 10")
    case True
    then show ?thesis using digit_char_digit [of n] by (subst show_nat.simps) simp
  next
    case False
    have "n mod 10 < 10" by simp
    then have "digit_char (n mod 10) \<in> set ''0123456789''" by (rule digit_char_digit)
    with False "1.IH" show ?thesis by (subst show_nat.simps) simp
  qed
qed

lemma show_nat_inj: "show_nat n = show_nat m \<Longrightarrow> n = m"
proof (induction n arbitrary: m rule: show_nat.induct)
  case (1 n)
  show ?case
  proof (cases "n < 10")
    case n: True
    then have sn: "show_nat n = [digit_char n]" by (subst show_nat.simps) simp
    show ?thesis
    proof (cases "m < 10")
      case True
      then have "show_nat m = [digit_char m]" by (subst show_nat.simps) simp
      with sn "1.prems" n True show ?thesis by (simp add: digit_char_inj)
    next
      case False
      then have "show_nat m = show_nat (m div 10) @ [digit_char (m mod 10)]"
        by (subst show_nat.simps) simp
      with sn "1.prems" show_nat_nonempty [of "m div 10"] show ?thesis by (cases "show_nat (m div 10)") simp_all
    qed
  next
    case n: False
    then have sn: "show_nat n = show_nat (n div 10) @ [digit_char (n mod 10)]"
      by (subst show_nat.simps) simp
    show ?thesis
    proof (cases "m < 10")
      case True
      then have "show_nat m = [digit_char m]" by (subst show_nat.simps) simp
      with sn "1.prems" show_nat_nonempty [of "n div 10"] show ?thesis by (cases "show_nat (n div 10)") simp_all
    next
      case False
      then have sm: "show_nat m = show_nat (m div 10) @ [digit_char (m mod 10)]"
        by (subst show_nat.simps) simp
      from sn sm "1.prems" have e1: "show_nat (n div 10) = show_nat (m div 10)"
        and e2: "digit_char (n mod 10) = digit_char (m mod 10)" by simp_all
      from "1.IH" [OF n e1] have d: "n div 10 = m div 10" .
      have "n mod 10 = m mod 10" using e2 by (intro digit_char_inj) simp_all
      with d show ?thesis by (metis div_mult_mod_eq)
    qed
  qed
qed

lemma show_int_inj: "show_int i = show_int j \<Longrightarrow> i = j"
proof -
  assume e: "show_int i = show_int j"
  have nd: "CHR ''-'' \<notin> set (show_nat k)" for k
    using show_nat_digits [of k] by auto
  have hd_digit: "show_nat k \<noteq> CHR ''-'' # xs" for k xs
    using nd [of k] by (metis list.set_intros(1))
  show "i = j"
  proof (cases "i < 0")
    case True
    show ?thesis
    proof (cases "j < 0")
      case j: True
      with True e have "show_nat (nat (- i)) = show_nat (nat (- j))" by (simp add: show_int_def)
      then have "nat (- i) = nat (- j)" by (rule show_nat_inj)
      with True j show ?thesis by simp
    next
      case False
      with True e have "show_nat (nat j) = CHR ''-'' # show_nat (nat (- i))" by (simp add: show_int_def)
      with hd_digit show ?thesis by blast
    qed
  next
    case False
    show ?thesis
    proof (cases "j < 0")
      case True
      with False e have "show_nat (nat i) = CHR ''-'' # show_nat (nat (- j))" by (simp add: show_int_def)
      with hd_digit show ?thesis by blast
    next
      case j: False
      with False e have "show_nat (nat i) = show_nat (nat j)" by (simp add: show_int_def)
      then have "nat i = nat j" by (rule show_nat_inj)
      with False j show ?thesis by simp
    qed
  qed
qed

lemma cmd_id_collides_iff: "cmd_id t1 = cmd_id t2 \<longleftrightarrow> t1 = t2"
  by (auto simp: cmd_id_def dest: show_int_inj)

text \<open>
  Claim C8 says that two distinct commands always receive distinct ids and that
  registering never replaces a live entry. The id is \<^verbatim>\<open>cmd-\<close> followed by the clock
  reading in nanoseconds, and \<^verbatim>\<open>RegisterCommand\<close> assigns without looking: two commands
  spawned at the same clock reading both get \<^verbatim>\<open>cmd-1000\<close>, the registry then holds the
  second one only, and no id leads to the first, which is still running.
\<close>

theorem equal_clock_readings_collide:
  "fst two_spawns = (Inr 0, Inr 1)
   \<and> ID (heap (snd two_spawns) 0) = ''cmd-1000'' \<and> ID (heap (snd two_spawns) 1) = ''cmd-1000''
   \<and> Command (heap (snd two_spawns) 0) = ''echo one'' \<and> Command (heap (snd two_spawns) 1) = ''echo two''
   \<and> Done (heap (snd two_spawns) 0) = False
   \<and> GetCommand ''cmd-1000'' (snd two_spawns) = Inr 1
   \<and> (\<forall>i. GetCommand i (snd two_spawns) \<noteq> Inr 0)
   \<and> map_sum id ID (NewBackgroundCommand ''echo one'' [] 1000)
       = map_sum id ID (NewBackgroundCommand ''echo two'' [] 1000)"
  by (simp add: two_spawns_def ExecuteCommandWithStreaming_def env_ok_def alloc_def
      RegisterCommand_def world0_def cmd_id_1000 GetCommand_def Let_def NewBackgroundCommand_def)

subsection \<open>Unknown identifiers\<close>

text \<open>
  Claim C9: a lookup of an id that is not in the directory (never registered, or
  removed) returns the not-found error and no status object, in the registry
  (\<^verbatim>\<open>GetCommand\<close>), in the pipeline (\<^verbatim>\<open>ExecutionPipeline.GetCommandStatus\<close>) and in the
  streaming executor.
\<close>

theorem unknown_id_not_found:
  "(commands w i = None \<longrightarrow> GetCommand i w = Inl (CommandNotFound i))
   \<and> (BackgroundCommands p i = None \<longrightarrow>
        ExecutionPipeline_GetCommandStatus now i p w = Inl (CommandIDNotFound i))
   \<and> (ActiveCommands e i = None \<longrightarrow>
        StreamingExecutor_GetCommandStatus i e w = Inl (CommandNotFound i))
   \<and> GetCommand i (RemoveCommand i w) = Inl (CommandNotFound i)"
  by (simp add: GetCommand_def ExecutionPipeline_GetCommandStatus_def
      StreamingExecutor_GetCommandStatus_def RemoveCommand_def)

theorem unknown_id_not_found_witness:
  "commands world0 ''unknown-id'' = None
   \<and> GetCommand ''unknown-id'' world0 = Inl (CommandNotFound ''unknown-id'')
   \<and> BackgroundCommands (NewExecutionPipeline ''/tmp'') ''unknown-id'' = None
   \<and> ExecutionPipeline_GetCommandStatus 5 ''unknown-id'' (NewExecutionPipeline ''/tmp'') world0
       = Inl (CommandIDNotFound ''unknown-id'')
   \<and> ActiveCommands NewStreamingExecutor ''unknown-id'' = None
   \<and> StreamingExecutor_GetCommandStatus ''unknown-id'' NewStreamingExecutor world0
       = Inl (CommandNotFound ''unknown-id'')"
  using unknown_id_not_found
    [of world0 "''unknown-id''" "NewExecutionPipeline ''/tmp''" 5 NewStreamingExecutor]
  by (simp add: world0_def NewExecutionPipeline_def NewStreamingExecutor_def)

subsection \<open>The default timeout\<close>






subsection \<open>Entries of the directories after completion\<close>

lemma both_started_pipeline:
  "fst both_started = \<lparr> Executor = NewStreamingExecutor, PipelineWorkingDir = ''/tmp'',
        BackgroundCommands = [''cmd-2000'' \<mapsto> Suc 0] \<rparr>"
  by (simp add: both_started_def ExecuteCommandWithStreaming_def ExecuteCommandInBackground_def
      NewBackgroundCommand_def Start_def env_ok_def alloc_def RegisterCommand_def world0_def
      cmd_id_1000 cmd_id_2000 NewExecutionPipeline_def Let_def)

lemma both_finished_eq: "both_finished = Some finished_world"
  by (simp add: both_finished_def both_started_def ExecuteCommandWithStreaming_def ExecuteCommandInBackground_def
      NewBackgroundCommand_def Start_def env_ok_def alloc_def RegisterCommand_def world0_def
      cmd_id_1000 cmd_id_2000 NewExecutionPipeline_def Let_def world_event_def AppendOutput_def
      waiter_def wait_exit_code_def newline_def finished_world_def command_one_def command_two_def
      fun_upd_twist)

lemma run_frozen_any:
  assumes "world_run c es w = Some w'" and "Done (heap w a)"
  shows "Done (heap w' a) \<and> ExitCode (heap w' a) = ExitCode (heap w a)
       \<and> Output (heap w' a) = Output (heap w a) \<and> Error (heap w' a) = Error (heap w a)"
proof (cases "a = c")
  case True
  with world_run_keeps [OF assms(1)] have "bg_run es (heap w a) = Some (heap w' a)" by simp
  from bg_run_frozen [OF this assms(2)] show ?thesis by simp
next
  case False
  with world_run_keeps [OF assms(1)] have "heap w' a = heap w a" by simp
  with assms(2) show ?thesis by simp
qed

lemma pipeline_status_of_done:
  assumes "BackgroundCommands p k = Some b" and "Done (heap w b)"
  shows "\<exists>st. ExecutionPipeline_GetCommandStatus now k p w = Inr st
           \<and> st_ExitCode st = ExitCode (heap w b) \<and> st_Output st = Output (heap w b)
           \<and> st_Error st = Error (heap w b)"
  using assms
  by (simp add: ExecutionPipeline_GetCommandStatus_def GetStatus_def NewBackgroundCommandStatus_def Let_def)

lemma pipeline_status_exists:
  assumes "BackgroundCommands p k = Some b"
  shows "\<exists>st. ExecutionPipeline_GetCommandStatus now k p w = Inr st"
  using assms
  by (simp add: ExecutionPipeline_GetCommandStatus_def GetStatus_def NewBackgroundCommandStatus_def Let_def)

lemma active_entry_only_while_waiting:
  assumes "stdout_pipe_err env = None" "stderr_pipe_err env = None" "start_err env = None"
    and "StreamingExecutor_ExecuteCommand t env evs command workingDir e w0 = Some (res, e2, w2)"
  shows "StreamingExecutor_GetCommandStatus (cmd_id t) e2 w2 = Inl (CommandNotFound (cmd_id t))
       \<and> (\<exists>a'. GetCommand (cmd_id (now_id env)) w2 = Inr a' \<and> Done (heap w2 a')
                \<and> fst res = result_of (heap w2 a'))"
proof -
  let ?bg = "\<lparr> ID = cmd_id (now_id env), Command = command, WorkingDir = workingDir,
                StartTime = now_start env, EndTime = zero_time, Duration = 0,
                ExitCode = 0, Output = [], Error = [],
                OutputLines = [], ErrorLines = [], Done = False \<rparr>"
  let ?a = "next_addr w0"
  let ?w1 = "RegisterCommand ?a (snd (alloc ?bg w0))"
  have sp: "ExecuteCommandWithStreaming env command workingDir w0 = (Inr ?a, ?w1)"
    using assms(1-3) by (simp add: ExecuteCommandWithStreaming_def Let_def alloc_def)
  have eq: "StreamingExecutor_ExecuteCommand t env evs command workingDir e w0 =
      (case world_run ?a evs ?w1 of
         None \<Rightarrow> None
       | Some w \<Rightarrow>
           if Done (heap w ?a)
           then Some ((result_of (heap w ?a), None),
                      delete_active (cmd_id t) (store_active (cmd_id t) ?a e), w)
           else None)"
    by (simp only: StreamingExecutor_ExecuteCommand_def sp Let_def prod.case sum.case)
  obtain w2' where run: "world_run ?a evs ?w1 = Some w2'"
    using assms(4) unfolding eq by (cases "world_run ?a evs ?w1") simp_all
  have dd: "Done (heap w2' ?a)"
    using assms(4) unfolding eq run by (cases "Done (heap w2' ?a)") simp_all
  have r: "res = (result_of (heap w2' ?a), None)"
    and e2: "e2 = delete_active (cmd_id t) (store_active (cmd_id t) ?a e)" and w2: "w2 = w2'"
    using assms(4) dd unfolding eq run by auto
  have c1: "commands ?w1 (cmd_id (now_id env)) = Some ?a"
    by (simp add: RegisterCommand_def alloc_def)
  from world_run_keeps [OF run] c1 have c2: "commands w2 (cmd_id (now_id env)) = Some ?a"
    by (simp add: w2)
  have A: "StreamingExecutor_GetCommandStatus (cmd_id t) e2 w2 = Inl (CommandNotFound (cmd_id t))"
    by (simp add: StreamingExecutor_GetCommandStatus_def e2 delete_active_def store_active_def)
  have B: "GetCommand (cmd_id (now_id env)) w2 = Inr ?a"
    using c2 by (simp add: GetCommand_def)
  from A B dd r w2 show ?thesis by auto
qed

lemma sync_run_returns: "\<exists>x. sync_run = Some x"
  by (simp add: sync_run_def StreamingExecutor_ExecuteCommand_def ExecuteCommandWithStreaming_def
      env_ok_def alloc_def RegisterCommand_def world0_def Let_def world_event_def AppendOutput_def
      waiter_def)

text \<open>
  Claim C7 says that no directory drops a command's entry when the command completes.
  \<^verbatim>\<open>StreamingExecutor.ExecuteCommand\<close> deletes its entry of \<^verbatim>\<open>ActiveCommands\<close> as soon as
  \<^verbatim>\<open>Done\<close> is received: while \<^verbatim>\<open>echo hello\<close> is in flight the lookup of \<^verbatim>\<open>cmd-2000\<close>
  succeeds, and after the call has returned the same lookup is not found although nothing
  asked for a removal (the registry still answers for the command's own id
  \<^verbatim>\<open>cmd-1000\<close>).
\<close>

theorem active_entry_deleted_on_completion:
  "(case ExecuteCommandWithStreaming (env_ok 1000 1001) ''echo hello'' [] world0 of
      (r, w1) \<Rightarrow>
        (r, StreamingExecutor_GetCommandStatus ''cmd-2000'' (store_active ''cmd-2000'' 0 NewStreamingExecutor) w1))
     = (Inr 0,
        Inr \<lparr> res_Success = True, res_ExitCode = 0, res_Output = [], res_Error = [],
              res_Duration = 0, res_OutputList = [], res_ErrorList = [] \<rparr>)
   \<and> map_option
        (\<lambda>(r, e, w). (fst r, StreamingExecutor_GetCommandStatus ''cmd-2000'' e w, GetCommand ''cmd-1000'' w))
        sync_run
     = Some (\<lparr> res_Success = True, res_ExitCode = 0, res_Output = ''hello'', res_Error = [],
                res_Duration = 1 / 200, res_OutputList = [''hello''], res_ErrorList = [] \<rparr>,
             Inl (CommandNotFound ''cmd-2000''), Inr 0)"
  by (simp add: sync_run_def StreamingExecutor_ExecuteCommand_def ExecuteCommandWithStreaming_def
      env_ok_def alloc_def RegisterCommand_def world0_def cmd_id_1000 cmd_id_2000 Let_def
      world_event_def AppendOutput_def waiter_def wait_exit_code_def newline_def
      NewStreamingExecutor_def result_of_def Seconds_def StreamingExecutor_GetCommandStatus_def
      GetCommand_def store_active_def delete_active_def)

text \<open>
  Claim C7 as amended: in the process-wide registry and in the pipeline's
  \<^verbatim>\<open>BackgroundCommands\<close> the events of any command's life, its completion among them,
  remove nothing. After them \<^verbatim>\<open>GetCommand\<close> still returns a registered command, and
  \<^verbatim>\<open>ExecutionPipeline.GetCommandStatus\<close> still returns a status for a command of the
  pipeline, in both cases with the exit code and the output and error strings that the
  completion left; only \<^verbatim>\<open>RemoveCommand\<close> of that very id makes \<^verbatim>\<open>GetCommand\<close> fail
  with the not-found error. The \<^verbatim>\<open>ActiveCommands\<close> of a streaming executor answer for
  an id while \<^verbatim>\<open>ExecuteCommand\<close> waits; once a call that spawned its command has
  returned, its id is not found there, while the registry still returns the finished
  command whose result the call gave.
\<close>

theorem registry_entry_outlives_completion:
  assumes "world_run c es w = Some w'"
  shows "(commands w i = Some a \<longrightarrow>
            GetCommand i w' = Inr a
            \<and> (Done (heap w a) \<longrightarrow>
                 Done (heap w' a) \<and> ExitCode (heap w' a) = ExitCode (heap w a)
                 \<and> Output (heap w' a) = Output (heap w a) \<and> Error (heap w' a) = Error (heap w a))
            \<and> GetCommand i (RemoveCommand i w') = Inl (CommandNotFound i)
            \<and> (\<forall>j. j \<noteq> i \<longrightarrow> GetCommand i (RemoveCommand j w') = Inr a))
       \<and> (BackgroundCommands p k = Some b \<longrightarrow>
            (\<exists>st. ExecutionPipeline_GetCommandStatus now k p w' = Inr st
                  \<and> (Done (heap w b) \<longrightarrow>
                       st_ExitCode st = ExitCode (heap w b) \<and> st_Output st = Output (heap w b)
                       \<and> st_Error st = Error (heap w b))))
       \<and> StreamingExecutor_GetCommandStatus d (store_active d x e) w = Inr (result_of (heap w x))
       \<and> (stdout_pipe_err env = None \<and> stderr_pipe_err env = None \<and> start_err env = None
           \<and> StreamingExecutor_ExecuteCommand t env evs command workingDir e w0 = Some (res, e2, w2)
           \<longrightarrow> StreamingExecutor_GetCommandStatus (cmd_id t) e2 w2 = Inl (CommandNotFound (cmd_id t))
               \<and> (\<exists>a'. GetCommand (cmd_id (now_id env)) w2 = Inr a' \<and> Done (heap w2 a')
                        \<and> fst res = result_of (heap w2 a')))"
proof -
  note k = world_run_keeps [OF assms]
  have 1: "commands w i = Some a \<longrightarrow>
            GetCommand i w' = Inr a
            \<and> (Done (heap w a) \<longrightarrow>
                 Done (heap w' a) \<and> ExitCode (heap w' a) = ExitCode (heap w a)
                 \<and> Output (heap w' a) = Output (heap w a) \<and> Error (heap w' a) = Error (heap w a))
            \<and> GetCommand i (RemoveCommand i w') = Inl (CommandNotFound i)
            \<and> (\<forall>j. j \<noteq> i \<longrightarrow> GetCommand i (RemoveCommand j w') = Inr a)"
    using k run_frozen_any [OF assms, of a] by (simp add: GetCommand_def RemoveCommand_def)
  have 2: "BackgroundCommands p k = Some b \<longrightarrow>
            (\<exists>st. ExecutionPipeline_GetCommandStatus now k p w' = Inr st
                  \<and> (Done (heap w b) \<longrightarrow>
                       st_ExitCode st = ExitCode (heap w b) \<and> st_Output st = Output (heap w b)
                       \<and> st_Error st = Error (heap w b)))"
  proof
    assume m: "BackgroundCommands p k = Some b"
    show "\<exists>st. ExecutionPipeline_GetCommandStatus now k p w' = Inr st
                  \<and> (Done (heap w b) \<longrightarrow>
                       st_ExitCode st = ExitCode (heap w b) \<and> st_Output st = Output (heap w b)
                       \<and> st_Error st = Error (heap w b))"
    proof (cases "Done (heap w b)")
      case True
      note f = run_frozen_any [OF assms True]
      then have "Done (heap w' b)" by simp
      from pipeline_status_of_done [OF m this, of now] f show ?thesis by auto
    next
      case False
      with pipeline_status_exists [OF m, of now w'] show ?thesis by auto
    qed
  qed
  have 3: "StreamingExecutor_GetCommandStatus d (store_active d x e) w = Inr (result_of (heap w x))"
    by (simp add: StreamingExecutor_GetCommandStatus_def store_active_def)
  have 4: "stdout_pipe_err env = None \<and> stderr_pipe_err env = None \<and> start_err env = None
           \<and> StreamingExecutor_ExecuteCommand t env evs command workingDir e w0 = Some (res, e2, w2)
           \<longrightarrow> StreamingExecutor_GetCommandStatus (cmd_id t) e2 w2 = Inl (CommandNotFound (cmd_id t))
               \<and> (\<exists>a'. GetCommand (cmd_id (now_id env)) w2 = Inr a' \<and> Done (heap w2 a')
                        \<and> fst res = result_of (heap w2 a'))"
    using active_entry_only_while_waiting by blast
  from 1 2 3 4 show ?thesis by blast
qed

theorem registry_entry_outlives_completion_witness:
  "(case both_finished of
      None \<Rightarrow> False
    | Some w \<Rightarrow>
        commands w ''cmd-1000'' = Some 0 \<and> Done (heap w 0)
        \<and> BackgroundCommands (fst both_started) ''cmd-2000'' = Some 1 \<and> Done (heap w 1)
        \<and> (case world_run 1 [StderrLine ''late''] w of
              None \<Rightarrow> False
            | Some w' \<Rightarrow>
                GetCommand ''cmd-1000'' w' = Inr 0
                \<and> GetStatus (heap w' 0) = (True, 0, ''one'', [], [''one''], [])
                \<and> GetCommand ''cmd-1000'' (RemoveCommand ''cmd-1000'' w') = Inl (CommandNotFound ''cmd-1000'')
                \<and> map_sum id (\<lambda>st. (st_ExitCode st, st_Output st, st_Error st, st_ErrorList st))
                     (ExecutionPipeline_GetCommandStatus 9000000 ''cmd-2000'' (fst both_started) w')
                   = Inr (3, ''two'', [], [''late''])))
   \<and> map_option (\<lambda>(r, e, w). (StreamingExecutor_GetCommandStatus ''cmd-2000'' e w, GetCommand ''cmd-1000'' w))
        sync_run
     = Some (Inl (CommandNotFound ''cmd-2000''), Inr 0)"
proof -
  let ?w = finished_world
  let ?w' = "?w\<lparr> heap := (heap ?w)(Suc 0 := AppendError ''late'' command_two) \<rparr>"
  let ?p = "fst both_started"
  have run: "world_run 1 [StderrLine ''late''] ?w = Some ?w'"
    by (simp add: world_event_def finished_world_def)
  obtain res e2 w2 where sr: "sync_run = Some (res, e2, w2)"
    using sync_run_returns by (metis prod_cases3)
  then have se: "StreamingExecutor_ExecuteCommand 2000 (env_ok 1000 1001)
       [StdoutLine ''hello'', ProcExit WaitNil 5001001] ''echo hello'' [] NewStreamingExecutor world0
       = Some (res, e2, w2)"
    by (simp add: sync_run_def)
  note th = registry_entry_outlives_completion [OF run,
      where i = "''cmd-1000''" and a = 0 and p = ?p and k = "''cmd-2000''" and b = "Suc 0"
        and now = 9000000 and env = "env_ok 1000 1001" and t = 2000
        and evs = "[StdoutLine ''hello'', ProcExit WaitNil 5001001]" and command = "''echo hello''"
        and workingDir = "[]" and e = NewStreamingExecutor and ?w0.0 = world0
        and res = res and ?e2.0 = e2 and ?w2.0 = w2 and d = "''cmd-2000''" and x = 0]
  have h: "commands ?w ''cmd-1000'' = Some 0" "Done (heap ?w 0)"
    "BackgroundCommands ?p ''cmd-2000'' = Some 1" "Done (heap ?w 1)"
    by (simp_all add: finished_world_def command_one_def command_two_def both_started_pipeline)
  have ok: "stdout_pipe_err (env_ok 1000 1001) = None" "stderr_pipe_err (env_ok 1000 1001) = None"
    "start_err (env_ok 1000 1001) = None"
    by (simp_all add: env_ok_def)
  from th h have r1: "GetCommand ''cmd-1000'' ?w' = Inr 0"
    and r2: "Done (heap ?w' 0) \<and> ExitCode (heap ?w' 0) = ExitCode (heap ?w 0)
             \<and> Output (heap ?w' 0) = Output (heap ?w 0) \<and> Error (heap ?w' 0) = Error (heap ?w 0)"
    and r3: "GetCommand ''cmd-1000'' (RemoveCommand ''cmd-1000'' ?w') = Inl (CommandNotFound ''cmd-1000'')"
    by simp_all
  from r2 have g: "GetStatus (heap ?w' 0) = (True, 0, ''one'', [], [''one''], [])"
    by (simp add: GetStatus_def finished_world_def command_one_def)
  from th h obtain st where st: "ExecutionPipeline_GetCommandStatus 9000000 ''cmd-2000'' ?p ?w' = Inr st"
    and stv: "st_ExitCode st = ExitCode (heap ?w (Suc 0)) \<and> st_Output st = Output (heap ?w (Suc 0))
               \<and> st_Error st = Error (heap ?w (Suc 0))"
    by auto
  have stl: "st_ErrorList st = [''late'']"
    using st
    by (auto simp: ExecutionPipeline_GetCommandStatus_def both_started_pipeline GetStatus_def
        NewBackgroundCommandStatus_def Let_def finished_world_def command_two_def AppendError_def
        split: if_splits)
  have r4: "map_sum id (\<lambda>st. (st_ExitCode st, st_Output st, st_Error st, st_ErrorList st))
                     (ExecutionPipeline_GetCommandStatus 9000000 ''cmd-2000'' ?p ?w')
                   = Inr (3, ''two'', [], [''late''])"
    using st stv stl by (simp add: finished_world_def command_two_def)
  from th se ok have a1: "StreamingExecutor_GetCommandStatus (cmd_id 2000) e2 w2 = Inl (CommandNotFound (cmd_id 2000))"
    and a2: "\<exists>a'. GetCommand (cmd_id (now_id (env_ok 1000 1001))) w2 = Inr a'"
    by auto
  have a3: "GetCommand ''cmd-1000'' w2 = Inr 0"
    using sr
    by (simp add: sync_run_def StreamingExecutor_ExecuteCommand_def ExecuteCommandWithStreaming_def
      env_ok_def alloc_def RegisterCommand_def world0_def Let_def world_event_def AppendOutput_def
      waiter_def cmd_id_1000 GetCommand_def split: if_splits) auto
  have r5: "map_option (\<lambda>(r, e, w). (StreamingExecutor_GetCommandStatus ''cmd-2000'' e w, GetCommand ''cmd-1000'' w))
        sync_run = Some (Inl (CommandNotFound ''cmd-2000''), Inr 0)"
    using a1 a3 by (simp add: sr cmd_id_2000)
  show ?thesis
    unfolding both_finished_eq
    using h run r1 g r3 r4 r5 by simp
qed

subsection \<open>The terminal message of a stream\<close>

text \<open>Once the process has exited, the pipeline answers the same snapshot at every later time.\<close>

lemma poll_finished:
  "poll_after ''sleep 2 && echo done'' [StdoutLine ''done'', ProcExit WaitNil 2000001001] now
     = Inr finished_status"
  by (simp add: poll_after_def started_eq ExecutionPipeline_GetCommandStatus_def GetStatus_def
      NewBackgroundCommandStatus_def IsZero_def zero_time_def Seconds_def world_event_def
      AppendOutput_def waiter_def wait_exit_code_def newline_def finished_status_def)

lemma late_first_tick:
  "stream_tick stream_init (Inr finished_status) True True
     = ([StatusJSON (incremental_response finished_status [''done''] [])], Some late_state)"
  by (simp add: stream_tick_def stream_init_def finished_status_def late_state_def Let_def)

lemma late_next_tick:
  "stream_tick late_state (Inr finished_status) True True = ([], Some late_state)"
  by (simp add: stream_tick_def finished_status_def late_state_def Let_def statusChanged_def)

lemma late_idle:
  "stream_run late_state (replicate n (Tick (Inr finished_status) True True)) = ([], Some late_state)"
  by (induction n) (simp_all add: late_next_tick)

text \<open>
  The guard around the final message does not depend on the sense of the running flag
  alone: a handler that has sent the lines of a finished command and then polls the same
  snapshot with \<open>running = False\<close> again sends nothing, because nothing has changed.
\<close>

lemma unchanged_snapshot_sends_nothing:
  assumes "\<not> st_Running st"
  shows "stream_tick \<lparr> lastStatus = Some st, processedOutputLines = length (st_OutputList st),
                       processedErrorLines = length (st_ErrorList st) \<rparr> (Inr st) True True
           = ([], Some \<lparr> lastStatus = Some st, processedOutputLines = length (st_OutputList st),
                         processedErrorLines = length (st_ErrorList st) \<rparr>)"
  by (simp add: stream_tick_def Let_def statusChanged_def)

text \<open>
  Claim C2 says that a subscription whose command terminates is eventually sent exactly
  one complete message and is then closed. An observer that attaches after
  \<^verbatim>\<open>sleep 2 && echo done\<close> has exited polls, one second apart, the snapshot of the
  finished command: the first tick sends the incremental message with the line, and
  however many ticks follow, no complete message is sent and the handler has not
  returned.
\<close>

theorem late_observer_never_completes:
  "stream_run stream_init
      (map (\<lambda>j. Tick (poll_after ''sleep 2 && echo done''
                          [StdoutLine ''done'', ProcExit WaitNil 2000001001]
                          (3000001001 + int j * Second)) True True) [0..<Suc n])
     = ([StatusJSON \<lparr> msg_Running = True, msg_ExitCode = 0, msg_Output = ''done'', msg_Error = [],
                       msg_OutputList = [''done''], msg_ErrorList = [], msg_Duration = 2,
                       msg_Incremental = True, msg_Complete = False \<rparr>],
        Some \<lparr> lastStatus = Some finished_status, processedOutputLines = 1,
               processedErrorLines = 0 \<rparr>)"
proof -
  have ticks: "map (\<lambda>j. Tick (poll_after ''sleep 2 && echo done''
                          [StdoutLine ''done'', ProcExit WaitNil 2000001001]
                          (3000001001 + int j * Second)) True True) [0..<Suc n]
                 = Tick (Inr finished_status) True True # replicate n (Tick (Inr finished_status) True True)"
    by (simp only: poll_finished map_replicate_const length_upt diff_zero replicate_Suc)
  show ?thesis
    by (simp only: ticks stream_run.simps stream_step.simps late_first_tick late_idle
        prod.case option.case append_Nil2)
      (simp add: incremental_response_def finished_status_def late_state_def)
qed

subsection \<open>The lines a streaming observer is sent\<close>

lemma poll_sleeping:
  "poll_after ''echo a; sleep 5'' [StdoutLine ''a''] now = Inr (sleeping_status (Seconds (now - 1001)))"
  by (simp add: poll_after_def started_eq ExecutionPipeline_GetCommandStatus_def GetStatus_def
      NewBackgroundCommandStatus_def IsZero_def zero_time_def world_event_def
      AppendOutput_def newline_def sleeping_status_def)

lemma sleeping_first_tick:
  "stream_tick stream_init (Inr (sleeping_status 1)) True True
     = ([StatusJSON (incremental_response (sleeping_status 1) [''a''] [])],
        Some \<lparr> lastStatus = Some (sleeping_status 1), processedOutputLines = Suc 0,
               processedErrorLines = 0 \<rparr>)"
  by (simp add: stream_tick_def stream_init_def sleeping_status_def Let_def)

lemma sleeping_second_tick:
  "stream_tick \<lparr> lastStatus = Some (sleeping_status 1), processedOutputLines = Suc 0,
                 processedErrorLines = 0 \<rparr> (Inr (sleeping_status 2)) True True
     = ([StatusJSON (incremental_response (sleeping_status 2) [] []),
         StatusJSON (final_response (sleeping_status 2)),
         CloseMessage ''Command completed''], None)"
  by (simp add: stream_tick_def sleeping_status_def Let_def statusChanged_def)

text \<open>
  Claim C3 says that the \<^verbatim>\<open>output_list\<close> fields of all the messages an observer is
  sent, concatenated, are the final output with every line once. The complete message
  carries the whole list again: for \<^verbatim>\<open>echo a; sleep 5\<close>, polled one and two seconds after
  the start, the observer is sent the line \<open>a\<close> in the first incremental message and
  once more in the complete message, while the final output is the single line \<open>a\<close>.
\<close>

theorem complete_message_repeats_lines:
  "delivered_output
     (fst (stream_run stream_init
        [Tick (poll_after ''echo a; sleep 5'' [StdoutLine ''a''] 1000001001) True True,
         Tick (poll_after ''echo a; sleep 5'' [StdoutLine ''a''] 2000001001) True True]))
     = [''a'', ''a'']
   \<and> final_lines ''echo a; sleep 5'' [StdoutLine ''a'', ProcExit WaitNil 5000001001] = Some [''a'']"
proof -
  have s1: "Seconds 1000000000 = 1" and s2: "Seconds 2000000000 = 2"
    by (simp_all add: Seconds_def)
  have run: "stream_run stream_init
        [Tick (poll_after ''echo a; sleep 5'' [StdoutLine ''a''] 1000001001) True True,
         Tick (poll_after ''echo a; sleep 5'' [StdoutLine ''a''] 2000001001) True True]
      = ([StatusJSON (incremental_response (sleeping_status 1) [''a''] []),
          StatusJSON (incremental_response (sleeping_status 2) [] []),
          StatusJSON (final_response (sleeping_status 2)),
          CloseMessage ''Command completed''], None)"
    by (simp add: poll_sleeping s1 s2 sleeping_first_tick sleeping_second_tick)
  have fin: "final_lines ''echo a; sleep 5'' [StdoutLine ''a'', ProcExit WaitNil 5000001001] = Some [''a'']"
    by (simp add: final_lines_def started_eq world_event_def AppendOutput_def waiter_def)
  show ?thesis
    unfolding run fin
    by (simp add: delivered_output_def incremental_response_def final_response_def
        sleeping_status_def)
qed

lemma incremental_output_append [simp]:
  "incremental_output (fs @ gs) = incremental_output fs @ incremental_output gs"
  by (simp add: incremental_output_def)

lemma incremental_error_append [simp]:
  "incremental_error (fs @ gs) = incremental_error fs @ incremental_error gs"
  by (simp add: incremental_error_def)

text \<open>A tick after which the handler goes on has sent exactly the lines beyond the cursors.\<close>

lemma stream_tick_live:
  assumes "stream_tick s (Inr st) write_ok final_ok = (gs, Some s')"
    and "processedOutputLines s \<le> length (st_OutputList st)"
    and "processedErrorLines s \<le> length (st_ErrorList st)"
  shows "incremental_output gs = drop (processedOutputLines s) (st_OutputList st)
       \<and> incremental_error gs = drop (processedErrorLines s) (st_ErrorList st)
       \<and> processedOutputLines s' = length (st_OutputList st)
       \<and> processedErrorLines s' = length (st_ErrorList st)
       \<and> filter is_complete gs = []"
  using assms
  by (auto simp: stream_tick_def Let_def incremental_output_def incremental_error_def
      incremental_response_def split: if_splits option.splits)

text \<open>So has a tick whose first write succeeds, whether or not the handler goes on.\<close>

lemma stream_tick_written:
  assumes "stream_tick s (Inr st) True final_ok = (gs, r)"
    and "processedOutputLines s \<le> length (st_OutputList st)"
    and "processedErrorLines s \<le> length (st_ErrorList st)"
  shows "incremental_output gs = drop (processedOutputLines s) (st_OutputList st)
       \<and> incremental_error gs = drop (processedErrorLines s) (st_ErrorList st)
       \<and> (filter is_complete gs = [] \<or> filter is_complete gs = [StatusJSON (final_response st)])"
  using assms
  by (auto simp: stream_tick_def Let_def incremental_output_def incremental_error_def
      incremental_response_def final_response_def split: if_splits option.splits)

text \<open>
  The invariant of the loop: while the handler has not returned, the cursors are the
  lengths of the lists polled last, and the incremental messages sent since the cursors
  stood at \<open>out\<close> and \<open>err\<close> carry what the lists have gained.
\<close>

lemma stream_run_live:
  assumes "stream_run s evs = (fs, Some s')"
    and "sorted_wrt prefix (out # map st_OutputList (polled_statuses evs))"
    and "sorted_wrt prefix (err # map st_ErrorList (polled_statuses evs))"
    and "processedOutputLines s = length out"
    and "processedErrorLines s = length err"
  shows "out @ incremental_output fs = last (out # map st_OutputList (polled_statuses evs))
       \<and> err @ incremental_error fs = last (err # map st_ErrorList (polled_statuses evs))
       \<and> processedOutputLines s' = length (last (out # map st_OutputList (polled_statuses evs)))
       \<and> processedErrorLines s' = length (last (err # map st_ErrorList (polled_statuses evs)))
       \<and> filter is_complete fs = []"
  using assms
proof (induction evs arbitrary: s fs out err)
  case Nil
  then show ?case by (simp add: incremental_output_def incremental_error_def)
next
  case (Cons ev evs)
  from Cons.prems(1) obtain gs s1 hs where
    step: "stream_step s ev = (gs, Some s1)" and rest: "stream_run s1 evs = (hs, Some s')"
    and fs: "fs = gs @ hs"
    by (auto split: prod.splits option.splits)
  from step obtain st write_ok final_ok where ev: "ev = Tick (Inr st) write_ok final_ok"
    and tick: "stream_tick s (Inr st) write_ok final_ok = (gs, Some s1)"
    by (cases ev) (auto simp: stream_tick_def split: sum.splits)
  have po: "prefix out (st_OutputList st)" and pe: "prefix err (st_ErrorList st)"
    using Cons.prems(2,3) ev by auto
  have so: "sorted_wrt prefix (st_OutputList st # map st_OutputList (polled_statuses evs))"
    and se: "sorted_wrt prefix (st_ErrorList st # map st_ErrorList (polled_statuses evs))"
    using Cons.prems(2,3) ev by auto
  have le: "processedOutputLines s \<le> length (st_OutputList st)"
    "processedErrorLines s \<le> length (st_ErrorList st)"
    using po pe Cons.prems(4,5) by (auto dest: prefix_length_le)
  note t = stream_tick_live [OF tick le]
  have o1: "out @ incremental_output gs = st_OutputList st"
    using t po Cons.prems(4) by (auto simp: prefix_def)
  have e1: "err @ incremental_error gs = st_ErrorList st"
    using t pe Cons.prems(5) by (auto simp: prefix_def)
  from t have p1: "processedOutputLines s1 = length (st_OutputList st)"
    "processedErrorLines s1 = length (st_ErrorList st)"
    by simp_all
  note ih = Cons.IH [OF rest so se p1]
  have "out @ incremental_output fs = (out @ incremental_output gs) @ incremental_output hs"
    by (simp add: fs)
  also have "\<dots> = last (st_OutputList st # map st_OutputList (polled_statuses evs))"
    using ih o1 by simp
  finally have A: "out @ incremental_output fs = last (out # map st_OutputList (polled_statuses (ev # evs)))"
    by (simp add: ev)
  have "err @ incremental_error fs = (err @ incremental_error gs) @ incremental_error hs"
    by (simp add: fs)
  also have "\<dots> = last (st_ErrorList st # map st_ErrorList (polled_statuses evs))"
    using ih e1 by simp
  finally have B: "err @ incremental_error fs = last (err # map st_ErrorList (polled_statuses (ev # evs)))"
    by (simp add: ev)
  have C: "processedOutputLines s' = length (last (out # map st_OutputList (polled_statuses (ev # evs))))"
    "processedErrorLines s' = length (last (err # map st_ErrorList (polled_statuses (ev # evs))))"
    using ih by (simp_all add: ev)
  have D: "filter is_complete fs = []"
    using ih t by (simp add: fs)
  from A B C D show ?case by simp
qed

lemma polled_statuses_append [simp]:
  "polled_statuses (evs @ evs') = polled_statuses evs @ polled_statuses evs'"
  by (induction evs rule: polled_statuses.induct) simp_all

text \<open>What an observer is sent is decided by the events of its own handler.\<close>

lemma observers_run_length [simp]: "length (observers_run obs sched) = length obs"
  by (induction obs sched rule: observers_run.induct) simp_all

lemma observers_private:
  "k < length obs \<Longrightarrow>
     observers_run obs sched ! k
       = foldl observer_step (obs ! k) (map snd (filter (\<lambda>(j, ev). j = k) sched))"
  by (induction obs sched rule: observers_run.induct) (auto simp: nth_list_update)

lemma observer_step_simps [simp]:
  "observer_step (fs, None) ev = (fs, None)"
  "observer_step (fs, Some s) ev = (case stream_step s ev of (gs, r) \<Rightarrow> (fs @ gs, r))"
  by (simp_all add: observer_step_def)

lemma observer_fold_stopped [simp]: "foldl observer_step (fs, None) evs = (fs, None)"
  by (induction evs) simp_all

lemma observer_fold_is_stream_run:
  "foldl observer_step (fs, Some s) evs = (case stream_run s evs of (gs, r) \<Rightarrow> (fs @ gs, r))"
proof (induction evs arbitrary: fs s)
  case Nil
  then show ?case by simp
next
  case (Cons ev evs)
  show ?case
  proof (cases "stream_step s ev")
    case (Pair gs r)
    then show ?thesis
      by (cases r) (auto simp: Cons.IH split: prod.splits)
  qed
qed

text \<open>The snapshots of the pipeline along the life of a command are append-only.\<close>

lemma pipeline_snapshots_extend:
  assumes "BackgroundCommands p i = Some a"
    and "world_run a es w = Some w'"
    and "ExecutionPipeline_GetCommandStatus t i p w = Inr st"
    and "ExecutionPipeline_GetCommandStatus t' i p w' = Inr st'"
  shows "prefix (st_OutputList st) (st_OutputList st') \<and> prefix (st_ErrorList st) (st_ErrorList st')"
proof -
  have "st_OutputList st = OutputLines (heap w a)" "st_ErrorList st = ErrorLines (heap w a)"
    using assms(1,3)
    by (auto simp: ExecutionPipeline_GetCommandStatus_def GetStatus_def NewBackgroundCommandStatus_def
        Let_def split: if_splits)
  moreover have "st_OutputList st' = OutputLines (heap w' a)" "st_ErrorList st' = ErrorLines (heap w' a)"
    using assms(1,4)
    by (auto simp: ExecutionPipeline_GetCommandStatus_def GetStatus_def NewBackgroundCommandStatus_def
        Let_def split: if_splits)
  moreover have "bg_run es (heap w a) = Some (heap w' a)"
    using world_run_keeps [OF assms(2)] by simp
  ultimately show ?thesis
    using bg_run_prefix by simp
qed

text \<open>
  Claim C3 as amended: for an observer whose polled snapshots are append-only, at every
  tick that a handler which has not returned carries out with a successful write, the
  \<^verbatim>\<open>output_list\<close> fields of the incremental messages sent so far, concatenated in the
  order of delivery, are exactly the output lines of the snapshot polled at that tick,
  and likewise for the error lines; this holds from the first tick on, whenever the
  observer attaches. No complete message precedes that tick, and the tick sends at most
  one, which carries the entire lists once more. The cursors are private: what the
  \<open>k\<close>-th of several observers is sent is what its own events alone produce.
\<close>

theorem incremental_lines_exactly_once:
  assumes "stream_run stream_init evs = (fs, Some s)"
    and "append_only (evs @ [Tick (Inr st) True final_ok])"
    and "stream_tick s (Inr st) True final_ok = (gs, r)"
  shows "incremental_output (fs @ gs) = st_OutputList st
       \<and> incremental_error (fs @ gs) = st_ErrorList st
       \<and> filter is_complete fs = []
       \<and> (filter is_complete gs = [] \<or> filter is_complete gs = [StatusJSON (final_response st)])
       \<and> (\<forall>obs sched k. k < length obs \<longrightarrow>
             observers_run obs sched ! k
               = foldl observer_step (obs ! k) (map snd (filter (\<lambda>(j, ev). j = k) sched)))"
proof -
  let ?outs = "map st_OutputList (polled_statuses evs)"
  let ?errs = "map st_ErrorList (polled_statuses evs)"
  have so: "sorted_wrt prefix ([] # ?outs)" and se: "sorted_wrt prefix ([] # ?errs)"
    using assms(2) by (auto simp: append_only_def sorted_wrt_append)
  have live: "[] @ incremental_output fs = last ([] # ?outs)
       \<and> [] @ incremental_error fs = last ([] # ?errs)
       \<and> processedOutputLines s = length (last ([] # ?outs))
       \<and> processedErrorLines s = length (last ([] # ?errs))
       \<and> filter is_complete fs = []"
    by (rule stream_run_live [OF assms(1) so se]) (simp_all add: stream_init_def)
  have po: "prefix (last ([] # ?outs)) (st_OutputList st)"
    using assms(2)
    by (cases "polled_statuses evs" rule: rev_cases) (auto simp: append_only_def sorted_wrt_append)
  have pe: "prefix (last ([] # ?errs)) (st_ErrorList st)"
    using assms(2)
    by (cases "polled_statuses evs" rule: rev_cases) (auto simp: append_only_def sorted_wrt_append)
  have le: "processedOutputLines s \<le> length (st_OutputList st)"
    "processedErrorLines s \<le> length (st_ErrorList st)"
    using live po pe by (auto dest: prefix_length_le)
  note t = stream_tick_written [OF assms(3) le]
  have A: "incremental_output (fs @ gs) = st_OutputList st"
    using live t po by (auto simp: prefix_def)
  have B: "incremental_error (fs @ gs) = st_ErrorList st"
    using live t pe by (auto simp: prefix_def)
  from A B live t observers_private show ?thesis by blast
qed

theorem incremental_lines_exactly_once_witness:
  "stream_run stream_init [Tick (Inr (sleeping_status 1)) True True]
     = ([StatusJSON (incremental_response (sleeping_status 1) [''a''] [])],
        Some \<lparr> lastStatus = Some (sleeping_status 1), processedOutputLines = Suc 0,
               processedErrorLines = 0 \<rparr>)
   \<and> append_only [Tick (Inr (sleeping_status 1)) True True, Tick (Inr (sleeping_status 2)) True True]
   \<and> stream_tick \<lparr> lastStatus = Some (sleeping_status 1), processedOutputLines = Suc 0,
                   processedErrorLines = 0 \<rparr> (Inr (sleeping_status 2)) True True
     = ([StatusJSON (incremental_response (sleeping_status 2) [] []),
         StatusJSON (final_response (sleeping_status 2)),
         CloseMessage ''Command completed''], None)
   \<and> incremental_output
        [StatusJSON (incremental_response (sleeping_status 1) [''a''] []),
         StatusJSON (incremental_response (sleeping_status 2) [] []),
         StatusJSON (final_response (sleeping_status 2)),
         CloseMessage ''Command completed''] = [''a'']
   \<and> observers_run [([], Some stream_init), ([], Some stream_init)]
        [(0, Tick (Inr (sleeping_status 1)) True True),
         (1, Tick (Inr (sleeping_status 1)) True True),
         (0, Tick (Inr (sleeping_status 2)) True True)] ! 1
     = foldl observer_step ([], Some stream_init) [Tick (Inr (sleeping_status 1)) True True]"
proof -
  let ?t1 = "Tick (Inr (sleeping_status 1)) True True"
  let ?t2 = "Tick (Inr (sleeping_status 2)) True True"
  let ?s1 = "\<lparr> lastStatus = Some (sleeping_status 1), processedOutputLines = Suc 0,
               processedErrorLines = 0 \<rparr>"
  let ?fs = "[StatusJSON (incremental_response (sleeping_status 1) [''a''] [])]"
  let ?gs = "[StatusJSON (incremental_response (sleeping_status 2) [] []),
         StatusJSON (final_response (sleeping_status 2)),
         CloseMessage ''Command completed'']"
  have h1: "stream_run stream_init [?t1] = (?fs, Some ?s1)"
    by (simp add: sleeping_first_tick)
  have h2: "append_only ([?t1] @ [?t2])"
    by (simp add: append_only_def sleeping_status_def)
  have h3: "stream_tick ?s1 (Inr (sleeping_status 2)) True True = (?gs, None)"
    by (rule sleeping_second_tick)
  note th = incremental_lines_exactly_once [OF h1 h2 h3]
  have c1: "incremental_output (?fs @ ?gs) = [''a'']"
    using th by (simp add: sleeping_status_def)
  have c2: "observers_run [([], Some stream_init), ([], Some stream_init)]
        [(0, ?t1), (1, ?t1), (0, ?t2)] ! 1
     = foldl observer_step ([], Some stream_init) [?t1]"
    using th by simp
  from h1 h2 h3 c1 c2 show ?thesis by simp
qed

end
